theory Spec2Isabelle
  imports Main "HOL-Library.Multiset"
begin

section \<open>JavaScript primitives used by the server\<close>

text \<open>
  Strings are byte strings: a JavaScript string is represented by its UTF-8 bytes.
  A value of type \<open>string option\<close> is a JavaScript \<open>string | undefined\<close>.
  Its truthiness (\<open>!!x\<close>, \<open>if (x)\<close>, \<open>x || d\<close>) is: defined and not the empty string.
\<close>

definition truthy :: "string option \<Rightarrow> bool" where
  "truthy x = (case x of None \<Rightarrow> False | Some s \<Rightarrow> s \<noteq> [])"

text \<open>\<open>x || d\<close> on an optional string.\<close>

definition orDefault :: "string option \<Rightarrow> string \<Rightarrow> string" where
  "orDefault x d = (case x of None \<Rightarrow> d | Some s \<Rightarrow> if s = [] then d else s)"

text \<open>
  \<open>s.toLowerCase() === name\<close> for a literal \<open>name\<close> of ASCII characters, which is all the
  code does with a lower-cased string. The characters whose lower case is an ASCII
  character are that character itself, the ASCII capital of a letter and, for \<open>k\<close>, the
  Kelvin sign U+212A (the bytes E2 84 AA); the lower case of every other character
  contains a character outside ASCII, and no character has an empty lower case.
\<close>

definition lowerChar :: "char \<Rightarrow> char" where
  "lowerChar c =
     (let n = (of_char c :: nat) in if 65 \<le> n \<and> n \<le> 90 then char_of (n + 32) else c)"

definition kelvinSign :: string where
  "kelvinSign = [char_of (0xE2 :: nat), char_of (0x84 :: nat), char_of (0xAA :: nat)]"

fun lowerCaseIs :: "string \<Rightarrow> string \<Rightarrow> bool" where
  "lowerCaseIs s [] = (s = [])"
| "lowerCaseIs s (n # ns) =
     ((case s of [] \<Rightarrow> False | c # cs \<Rightarrow> lowerChar c = n \<and> lowerCaseIs cs ns) \<or>
      (n = CHR ''k'' \<and> take 3 s = kelvinSign \<and> lowerCaseIs (drop 3 s) ns))"

text \<open>\<open>s.includes(p)\<close>: \<open>p\<close> occurs in \<open>s\<close> as a contiguous substring.\<close>

fun includesStr :: "string \<Rightarrow> string \<Rightarrow> bool" where
  "includesStr [] p = (p = [])"
| "includesStr (c # cs) p = (take (length p) (c # cs) = p \<or> includesStr cs p)"

text \<open>\<open>xs.join(sep)\<close> on an array of strings.\<close>

fun join :: "string list \<Rightarrow> string \<Rightarrow> string" where
  "join [] sep = []"
| "join [x] sep = x"
| "join (x # y # ys) sep = x @ sep @ join (y # ys) sep"

text \<open>\<open>s.replace(/c/g, rep)\<close>: every occurrence of the character is replaced.\<close>

definition replaceAll :: "char \<Rightarrow> string \<Rightarrow> string \<Rightarrow> string" where
  "replaceAll c rep s = concat (map (\<lambda>x. if x = c then rep else [x]) s)"

text \<open>\<open>encodeURIComponent\<close>: unreserved characters are kept, every other byte becomes
  \<open>%XX\<close> with upper-case hexadecimal digits.\<close>

definition hexDigit :: "nat \<Rightarrow> char" where
  "hexDigit n = ''0123456789ABCDEF'' ! (n mod 16)"

definition unreserved :: "char \<Rightarrow> bool" where
  "unreserved c =
     (let n = (of_char c :: nat) in
        (65 \<le> n \<and> n \<le> 90) \<or> (97 \<le> n \<and> n \<le> 122) \<or> (48 \<le> n \<and> n \<le> 57) \<or>
        c \<in> set [CHR ''-'', CHR ''_'', CHR ''.'', CHR ''!'', CHR ''~'', CHR ''*'', CHR 0x27,
                  CHR ''('', CHR '')''])"

definition encodeURIComponent :: "string \<Rightarrow> string" where
  "encodeURIComponent s =
     concat (map (\<lambda>c. if unreserved c then [c]
                       else [CHR ''%'', hexDigit (of_char c div 16), hexDigit (of_char c)]) s)"

text \<open>
  The Number values \<open>parseInt\<close> can return: \<open>NaN\<close>, an integer, or an infinity (for a
  numeral beyond the range of the doubles). What \<open>parseInt\<close> makes of a string (the white
  space it skips, the rounding of a long numeral) is the JavaScript engine's; the model
  takes the function from the host, see \<open>host\<close> below.
\<close>

datatype jsNumber = NaN | Finite int | PosInfinity | NegInfinity

section \<open>JSON values and the request sanitizer (routes.ts)\<close>

text \<open>
  The values a parsed request carries. \<open>JObj kvs\<close> is a plain object: its own enumerable
  properties in enumeration order, with pairwise distinct names, and the prototype
  \<open>Object.prototype\<close>. \<open>JProto p kvs\<close> is an object with the same kind of own properties
  whose prototype has been set to the value \<open>p\<close> (an object, an array or \<open>null\<close>); only
  an assignment to the accessor \<open>__proto__\<close> makes one. \<open>JSON.parse\<close> yields plain
  objects, and for a member named \<open>__proto__\<close> an own property of that name.
  Numbers are never inspected by the code modelled here and are kept as integers.
\<close>

datatype json =
    JNull
  | JUndefined
  | JBool bool
  | JNum int
  | JStr string
  | JArr "json list"
  | JObj "(string \<times> json) list"
  | JProto json "(string \<times> json) list"

text \<open>Truthiness of a JSON value: objects and arrays are always truthy.\<close>

fun jsTruthy :: "json \<Rightarrow> bool" where
  "jsTruthy JNull = False"
| "jsTruthy JUndefined = False"
| "jsTruthy (JBool b) = b"
| "jsTruthy (JNum n) = (n \<noteq> 0)"
| "jsTruthy (JStr s) = (s \<noteq> [])"
| "jsTruthy (JArr xs) = True"
| "jsTruthy (JObj kvs) = True"
| "jsTruthy (JProto p kvs) = True"

text \<open>The string branch of \<open>sanitizeInput\<close>: five global replacements, in the source's order.\<close>

definition sanitizeString :: "string \<Rightarrow> string" where
  "sanitizeString s =
     replaceAll (CHR ''/'') ''&#x2F;''
       (replaceAll (CHR 0x27) ''&#x27;''
         (replaceAll (CHR 0x22) ''&quot;''
           (replaceAll (CHR ''>'') ''&gt;''
             (replaceAll (CHR ''<'') ''&lt;'' s))))"

text \<open>
  The loop \<open>result[key] = value\<close> over the own properties of an object, starting from
  \<open>{}\<close>. Every name but \<open>__proto__\<close> becomes an own property of the result. The
  assignment to \<open>__proto__\<close> runs the accessor of \<open>Object.prototype\<close>: it creates no
  property; it sets the prototype of the result when the value is an object, an array or
  \<open>null\<close> and does nothing for any other value.
\<close>

fun protoValue :: "json \<Rightarrow> bool" where
  "protoValue JNull = True"
| "protoValue (JArr xs) = True"
| "protoValue (JObj kvs) = True"
| "protoValue (JProto p kvs) = True"
| "protoValue _ = False"

definition assignAll :: "(string \<times> json) list \<Rightarrow> json" where
  "assignAll kvs =
     (let own = filter (\<lambda>(k, v). k \<noteq> ''__proto__'') kvs in
      case map_of kvs ''__proto__'' of
        None \<Rightarrow> JObj own
      | Some p \<Rightarrow> if protoValue p then JProto p own else JObj own)"

text \<open>
  \<open>sanitizeInput\<close>: \<open>null\<close>, \<open>undefined\<close> and non-string primitives are returned as they
  are, strings are escaped, arrays are mapped, and an object is rebuilt from its own
  properties (\<open>hasOwnProperty\<close> skips what the prototype contributes) with the same names
  and sanitized values.
\<close>

fun sanitizeInput :: "json \<Rightarrow> json" where
  "sanitizeInput JNull = JNull"
| "sanitizeInput JUndefined = JUndefined"
| "sanitizeInput (JBool b) = JBool b"
| "sanitizeInput (JNum n) = JNum n"
| "sanitizeInput (JStr s) = JStr (sanitizeString s)"
| "sanitizeInput (JArr xs) = JArr (map sanitizeInput xs)"
| "sanitizeInput (JObj kvs) = assignAll (map (\<lambda>(k, v). (k, sanitizeInput v)) kvs)"
| "sanitizeInput (JProto p kvs) = assignAll (map (\<lambda>(k, v). (k, sanitizeInput v)) kvs)"

text \<open>The five characters the sanitizer escapes; the string values of a JSON value at any
  depth, those reached through a prototype included; and its property names.\<close>

definition rawChars :: "char list" where
  "rawChars = [CHR ''<'', CHR ''>'', CHR 0x22, CHR 0x27, CHR ''/'']"

fun json_strings :: "json \<Rightarrow> string list" where
  "json_strings (JStr s) = [s]"
| "json_strings (JArr xs) = concat (map json_strings xs)"
| "json_strings (JObj kvs) = concat (map (\<lambda>(k, v). json_strings v) kvs)"
| "json_strings (JProto p kvs) = json_strings p @ concat (map (\<lambda>(k, v). json_strings v) kvs)"
| "json_strings _ = []"

fun json_names :: "json \<Rightarrow> string list" where
  "json_names (JArr xs) = concat (map json_names xs)"
| "json_names (JObj kvs) = concat (map (\<lambda>(k, v). k # json_names v) kvs)"
| "json_names (JProto p kvs) = json_names p @ concat (map (\<lambda>(k, v). k # json_names v) kvs)"
| "json_names _ = []"

text \<open>A value in which some object has an own property \<open>__proto__\<close> whose value is an
  object, an array or \<open>null\<close>: sanitizing it sets a prototype.\<close>

fun setsPrototype :: "json \<Rightarrow> bool" where
  "setsPrototype (JArr xs) = list_ex setsPrototype xs"
| "setsPrototype (JObj kvs) =
     ((case map_of kvs ''__proto__'' of None \<Rightarrow> False | Some p \<Rightarrow> protoValue p) \<or>
      list_ex (\<lambda>(k, v). setsPrototype v) kvs)"
| "setsPrototype (JProto p kvs) =
     ((case map_of kvs ''__proto__'' of None \<Rightarrow> False | Some p \<Rightarrow> protoValue p) \<or>
      list_ex (\<lambda>(k, v). setsPrototype v) kvs)"
| "setsPrototype _ = False"

text \<open>\<open>data[name]\<close> for a name that is no array index, not \<open>length\<close> and no member of the
  built-in prototypes: the own property, or else what the prototype chain gives.\<close>

fun getProperty :: "json \<Rightarrow> string \<Rightarrow> json option" where
  "getProperty (JObj kvs) name = map_of kvs name"
| "getProperty (JProto p kvs) name =
     (case map_of kvs name of Some v \<Rightarrow> Some v | None \<Rightarrow> getProperty p name)"
| "getProperty _ name = None"

section \<open>Stored data (schema.ts) and the in-memory storage (storage.ts)\<close>

text \<open>The rows of the tables \<open>videos\<close> and \<open>activities\<close>. The column \<open>id\<close> is the field
  \<open>ident\<close>; a nullable column is an \<open>option\<close>; timestamps are milliseconds since the
  epoch, the value of \<open>getTime()\<close>.\<close>

record video =
  ident :: int
  title :: string
  prompt :: string
  style :: string
  duration :: string
  aspectRatio :: string
  platforms :: "string list option"
  status :: string
  thumbnailUrl :: "string option"
  videoUrl :: "string option"
  createdAt :: int
  userId :: int

record activity =
  ident :: int
  videoId :: "int option"
  userId :: int
  action :: string
  details :: "json option"
  createdAt :: int

record insertActivity =
  videoId :: "int option"
  userId :: int
  action :: string
  details :: "json option"

text \<open>
  A JavaScript \<open>Map\<close> whose iteration order matters is an association list in insertion
  order: \<open>set\<close> replaces the value of a key that is present, in place, and appends a new key.
\<close>

definition mapSet :: "'k \<Rightarrow> 'v \<Rightarrow> ('k \<times> 'v) list \<Rightarrow> ('k \<times> 'v) list" where
  "mapSet k v m =
     (if k \<in> set (map fst m) then map (\<lambda>(k', v'). if k' = k then (k', v) else (k', v')) m
      else m @ [(k, v)])"

definition mapValues :: "('k \<times> 'v) list \<Rightarrow> 'v list" where
  "mapValues m = map snd m"

text \<open>The part of \<open>MemStorage\<close> the publishing routes touch. Every method takes the
  storage and returns its result together with the storage afterwards.\<close>

record memStorage =
  videos :: "int \<rightharpoonup> video"
  activities :: "(int \<times> activity) list"
  activityIdCounter :: int

text \<open>\<open>createActivity\<close>; \<open>now\<close> is the value of \<open>new Date()\<close> it reads. A \<open>videoId\<close> of
  \<open>0\<close> and falsy \<open>details\<close> are stored as \<open>null\<close> (\<open>x || null\<close>).\<close>

definition createActivity :: "int \<Rightarrow> memStorage \<Rightarrow> insertActivity \<Rightarrow> activity \<times> memStorage" where
  "createActivity now s ia =
     (let i = activityIdCounter s;
          a = \<lparr> activity.ident = i,
                activity.videoId =
                  (case insertActivity.videoId ia of None \<Rightarrow> None
                   | Some n \<Rightarrow> if n = 0 then None else Some n),
                activity.userId = insertActivity.userId ia,
                activity.action = insertActivity.action ia,
                activity.details =
                  (case insertActivity.details ia of None \<Rightarrow> None
                   | Some d \<Rightarrow> if jsTruthy d then Some d else None),
                activity.createdAt = now \<rparr>
      in (a, s\<lparr> activities := mapSet i a (activities s), activityIdCounter := i + 1 \<rparr>))"

text \<open>\<open>getVideo\<close> and \<open>updateVideo\<close> are given a Number. The keys of the map are the
  integer ids \<open>createVideo\<close> assigned, so only an integer finds a video.\<close>

definition getVideo :: "memStorage \<Rightarrow> jsNumber \<Rightarrow> video option \<times> memStorage" where
  "getVideo s n = ((case n of Finite i \<Rightarrow> videos s i | _ \<Rightarrow> None), s)"

text \<open>\<open>updateVideo\<close>; \<open>updateData\<close> is the spread \<open>{...video, ...updateData}\<close> as a function
  on the stored record, and \<open>now\<close> is the clock reading of the activity it records.\<close>

definition updateVideo ::
  "int \<Rightarrow> memStorage \<Rightarrow> jsNumber \<Rightarrow> (video \<Rightarrow> video) \<Rightarrow> video option \<times> memStorage" where
  "updateVideo now s n updateData =
     (case n of
        Finite i \<Rightarrow>
          (case videos s i of
             None \<Rightarrow> (None, s)
           | Some v \<Rightarrow>
               (let updatedVideo = updateData v;
                    s1 = s\<lparr> videos := (videos s)(i \<mapsto> updatedVideo) \<rparr>;
                    s2 = snd (createActivity now s1
                           \<lparr> insertActivity.videoId = Some i,
                             insertActivity.userId = video.userId v,
                             insertActivity.action = ''update_video'',
                             insertActivity.details = Some (JObj [(''title'', JStr (title v))]) \<rparr>)
                in (Some updatedVideo, s2)))
      | _ \<Rightarrow> (None, s))"

text \<open>\<open>Array.prototype.slice(0, end)\<close> for an integer \<open>end\<close>: a negative end counts from
  the end of the array.\<close>

definition slice0 :: "'a list \<Rightarrow> int \<Rightarrow> 'a list" where
  "slice0 xs e =
     (if e < 0 then take (nat (max (int (length xs) + e) 0)) xs
      else take (nat (min e (int (length xs)))) xs)"

text \<open>
  \<open>getActivitiesByUserId\<close>: the values of the map are copied into a new array, filtered,
  and sorted by \<open>b.createdAt - a.createdAt\<close>; the sort is stable, so it is the stable sort on
  the negated timestamp. \<open>limit\<close> is \<open>number | undefined\<close> (integers here); the test
  \<open>limit ? ... : ...\<close> sends both \<open>undefined\<close> and \<open>0\<close> to the unlimited branch.
\<close>

definition getActivitiesByUserId ::
  "memStorage \<Rightarrow> int \<Rightarrow> int option \<Rightarrow> activity list \<times> memStorage" where
  "getActivitiesByUserId s uid limit =
     (let acts = sort_key (\<lambda>a. - activity.createdAt a)
                   (filter (\<lambda>a. activity.userId a = uid) (mapValues (activities s)))
      in (case limit of
            None \<Rightarrow> acts
          | Some l \<Rightarrow> if l = 0 then acts else slice0 acts l,
          s))"

section \<open>The social media service (SocialMediaService)\<close>

record youtubeConfig =
  clientId :: string
  clientSecret :: string
  refreshToken :: "string option"
  accessToken :: "string option"

record tiktokConfig =
  clientKey :: string
  clientSecret :: string
  accessToken :: "string option"

record instagramConfig =
  accessToken :: "string option"

record socialMediaAuthConfig =
  youtube :: "youtubeConfig option"
  tiktok :: "tiktokConfig option"
  instagram :: "instagramConfig option"

record publishResult =
  success :: bool
  platform :: string
  url :: "string option"
  message :: "string option"
  error :: "string option"

text \<open>\<open>process.env\<close>: the variables that are set, by name.\<close>

type_synonym environment = "string \<rightharpoonup> string"

text \<open>The value of the field \<open>config\<close> before the constructor loads it: \<open>{}\<close>.\<close>

definition emptyConfig :: socialMediaAuthConfig where
  "emptyConfig = \<lparr> youtube = None, tiktok = None, instagram = None \<rparr>"

text \<open>\<open>loadConfig\<close>: an entry is (re)written when its variables are truthy and is left as
  it is otherwise. The guards make the strings read with \<open>orDefault\<close> the variables' values.\<close>

definition loadConfig :: "environment \<Rightarrow> socialMediaAuthConfig \<Rightarrow> socialMediaAuthConfig" where
  "loadConfig E c =
     (let c1 = (if truthy (E ''YOUTUBE_CLIENT_ID'') \<and> truthy (E ''YOUTUBE_CLIENT_SECRET'')
                then c\<lparr> youtube := Some
                       \<lparr> youtubeConfig.clientId = orDefault (E ''YOUTUBE_CLIENT_ID'') [],
                         youtubeConfig.clientSecret = orDefault (E ''YOUTUBE_CLIENT_SECRET'') [],
                         youtubeConfig.refreshToken = E ''YOUTUBE_REFRESH_TOKEN'',
                         youtubeConfig.accessToken = E ''YOUTUBE_ACCESS_TOKEN'' \<rparr> \<rparr>
                else c);
          c2 = (if truthy (E ''TIKTOK_CLIENT_KEY'') \<and> truthy (E ''TIKTOK_CLIENT_SECRET'')
                then c1\<lparr> tiktok := Some
                       \<lparr> tiktokConfig.clientKey = orDefault (E ''TIKTOK_CLIENT_KEY'') [],
                         tiktokConfig.clientSecret = orDefault (E ''TIKTOK_CLIENT_SECRET'') [],
                         tiktokConfig.accessToken = E ''TIKTOK_ACCESS_TOKEN'' \<rparr> \<rparr>
                else c1);
          c3 = (if truthy (E ''INSTAGRAM_ACCESS_TOKEN'')
                then c2\<lparr> instagram := Some
                       \<lparr> instagramConfig.accessToken = E ''INSTAGRAM_ACCESS_TOKEN'' \<rparr> \<rparr>
                else c2)
      in c3)"

text \<open>\<open>isPlatformConfigured\<close>: a switch on the lower-cased name, written as the chain of
  its comparisons; \<open>x?.f\<close> of a missing entry is \<open>undefined\<close>, which is falsy.\<close>

definition isPlatformConfigured :: "socialMediaAuthConfig \<Rightarrow> string \<Rightarrow> bool" where
  "isPlatformConfigured c p =
     (if lowerCaseIs p ''youtube'' then
        (case youtube c of None \<Rightarrow> False
         | Some y \<Rightarrow> youtubeConfig.clientId y \<noteq> [] \<and> youtubeConfig.clientSecret y \<noteq> [])
      else if lowerCaseIs p ''tiktok'' then
        (case tiktok c of None \<Rightarrow> False
         | Some t \<Rightarrow> tiktokConfig.clientKey t \<noteq> [] \<and> tiktokConfig.clientSecret t \<noteq> [])
      else if lowerCaseIs p ''instagram'' then
        (case instagram c of None \<Rightarrow> False
         | Some i \<Rightarrow> truthy (instagramConfig.accessToken i))
      else False)"

definition getConfiguredPlatforms :: "socialMediaAuthConfig \<Rightarrow> string list" where
  "getConfiguredPlatforms c =
     (if isPlatformConfigured c ''youtube'' then [''youtube''] else []) @
     (if isPlatformConfigured c ''tiktok'' then [''tiktok''] else []) @
     (if isPlatformConfigured c ''instagram'' then [''instagram''] else [])"

text \<open>\<open>setAccessToken\<close>: the returned flag and the configuration afterwards. For youtube and
  tiktok a missing entry leaves the switch by \<open>break\<close> and the method returns \<open>false\<close>;
  for instagram the entry is created when it is missing.\<close>

definition setAccessToken ::
  "socialMediaAuthConfig \<Rightarrow> string \<Rightarrow> string \<Rightarrow> bool \<times> socialMediaAuthConfig" where
  "setAccessToken c p token =
     (if lowerCaseIs p ''youtube'' then
        (case youtube c of
           Some y \<Rightarrow> (True, c\<lparr> youtube := Some (y\<lparr> youtubeConfig.accessToken := Some token \<rparr>) \<rparr>)
         | None \<Rightarrow> (False, c))
      else if lowerCaseIs p ''tiktok'' then
        (case tiktok c of
           Some t \<Rightarrow> (True, c\<lparr> tiktok := Some (t\<lparr> tiktokConfig.accessToken := Some token \<rparr>) \<rparr>)
         | None \<Rightarrow> (False, c))
      else if lowerCaseIs p ''instagram'' then
        (True, c\<lparr> instagram := Some \<lparr> instagramConfig.accessToken = Some token \<rparr> \<rparr>)
      else (False, c))"

text \<open>The redirect URI every branch of \<open>getAuthorizationUrl\<close> builds: \<open>http\<close> for a host
  that contains \<open>localhost\<close>, \<open>https\<close> otherwise.\<close>

definition redirectUri :: "string option \<Rightarrow> string \<Rightarrow> string" where
  "redirectUri baseUrl name =
     (let thisHost = orDefault baseUrl ''localhost:5000'';
          protocol = (if includesStr thisHost ''localhost'' then ''http'' else ''https'')
      in protocol @ ''://'' @ thisHost @ ''/api/auth/'' @ name @ ''/callback'')"

definition youtubeScopes :: string where
  "youtubeScopes = encodeURIComponent
     (''https://www.googleapis.com/auth/youtube '' @
      ''https://www.googleapis.com/auth/youtube.upload '' @
      ''https://www.googleapis.com/auth/youtube.readonly'')"

text \<open>\<open>getAuthorizationUrl\<close>; \<open>None\<close> is \<open>null\<close>. The instagram branch reads
  \<open>FACEBOOK_APP_ID\<close> from the environment, not the service's configuration.\<close>

definition getAuthorizationUrl ::
  "environment \<Rightarrow> socialMediaAuthConfig \<Rightarrow> string \<Rightarrow> string option \<Rightarrow> string option" where
  "getAuthorizationUrl E c p baseUrl =
     (if lowerCaseIs p ''youtube'' then
        (case youtube c of None \<Rightarrow> None
         | Some y \<Rightarrow>
             if youtubeConfig.clientId y = [] then None
             else Some (''https://accounts.google.com/o/oauth2/auth?client_id='' @
                        youtubeConfig.clientId y @
                        ''&redirect_uri='' @ encodeURIComponent (redirectUri baseUrl ''youtube'') @
                        ''&scope='' @ youtubeScopes @
                        ''&response_type=code&access_type=offline&prompt=consent'' @
                        ''&include_granted_scopes=true''))
      else if lowerCaseIs p ''tiktok'' then
        (case tiktok c of None \<Rightarrow> None
         | Some t \<Rightarrow>
             if tiktokConfig.clientKey t = [] then None
             else Some (''https://www.tiktok.com/auth/authorize/?client_key='' @
                        tiktokConfig.clientKey t @
                        ''&scope=user.info.basic,video.upload&response_type=code&redirect_uri='' @
                        encodeURIComponent (redirectUri baseUrl ''tiktok'')))
      else if lowerCaseIs p ''instagram'' then
        (if \<not> truthy (E ''FACEBOOK_APP_ID'') then None
         else Some (''https://www.facebook.com/v16.0/dialog/oauth?client_id='' @
                    orDefault (E ''FACEBOOK_APP_ID'') [] @
                    ''&redirect_uri='' @ encodeURIComponent (redirectUri baseUrl ''instagram'') @
                    ''&scope='' @
                    encodeURIComponent ''instagram_content_publish,pages_read_engagement''))
      else None)"

text \<open>The three adapters. Nothing in their \<open>try\<close> blocks can throw, so the \<open>catch\<close>
  branches are not reached; the upload itself is simulated in the source.\<close>

definition publishToYoutube :: "socialMediaAuthConfig \<Rightarrow> video \<Rightarrow> string \<Rightarrow> publishResult" where
  "publishToYoutube c v videoFilePath =
     (if \<not> (case youtube c of None \<Rightarrow> False | Some y \<Rightarrow> truthy (youtubeConfig.accessToken y))
      then \<lparr> success = False, platform = ''youtube'', url = None, message = None,
             error = Some ''YouTube not authorized. Please connect your YouTube account.'' \<rparr>
      else \<lparr> success = True, platform = ''youtube'',
             url = Some ''https://youtube.com/watch?v=dQw4w9WgXcQ'',
             message = Some ''Video successfully published to YouTube'', error = None \<rparr>)"

definition publishToTikTok :: "socialMediaAuthConfig \<Rightarrow> video \<Rightarrow> string \<Rightarrow> publishResult" where
  "publishToTikTok c v videoFilePath =
     (if \<not> (case tiktok c of None \<Rightarrow> False | Some t \<Rightarrow> truthy (tiktokConfig.accessToken t))
      then \<lparr> success = False, platform = ''tiktok'', url = None, message = None,
             error = Some ''TikTok not authorized. Please connect your TikTok account.'' \<rparr>
      else \<lparr> success = True, platform = ''tiktok'',
             url = Some ''https://tiktok.com/@username/video/1234567890'',
             message = Some ''Video successfully published to TikTok'', error = None \<rparr>)"

definition publishToInstagram :: "socialMediaAuthConfig \<Rightarrow> video \<Rightarrow> string \<Rightarrow> publishResult" where
  "publishToInstagram c v videoFilePath =
     (if \<not> (case instagram c of None \<Rightarrow> False | Some i \<Rightarrow> truthy (instagramConfig.accessToken i))
      then \<lparr> success = False, platform = ''instagram'', url = None, message = None,
             error = Some ''Instagram not authorized. Please connect your Instagram account.'' \<rparr>
      else \<lparr> success = True, platform = ''instagram'',
             url = Some ''https://instagram.com/p/AbCdEfGh123'',
             message = Some ''Video successfully published to Instagram'', error = None \<rparr>)"

text \<open>
  What the server asks of the host it runs on: \<open>parseInt\<close> is JavaScript's function of
  that name (called without a radix), \<open>videoFilePath\<close> is the path computed
  from a video URL by \<open>new URL(url, 'http://localhost')\<close>, \<open>path.basename\<close> and
  \<open>path.join\<close> (\<open>None\<close> when the \<open>URL\<close> constructor throws), \<open>fsAccess\<close> tells whether
  \<open>fs.access\<close> of a path succeeds, and \<open>dateNow k\<close> is the value of the \<open>k\<close>-th
  \<open>new Date()\<close> read while a request is handled.
\<close>

record host =
  parseInt :: "string \<Rightarrow> jsNumber"
  videoFilePath :: "string \<Rightarrow> string option"
  fsAccess :: "string \<Rightarrow> bool"
  dateNow :: "nat \<Rightarrow> int"

text \<open>The exception \<open>publishVideo\<close> can throw: the \<open>URL\<close> constructor rejects the video URL.\<close>

datatype exn = InvalidUrl

text \<open>The loop body of \<open>publishVideo\<close>: the switch on the lower-cased platform name.\<close>

definition publishTo :: "socialMediaAuthConfig \<Rightarrow> video \<Rightarrow> string \<Rightarrow> string \<Rightarrow> publishResult" where
  "publishTo c v videoFile p =
     (if lowerCaseIs p ''youtube'' then publishToYoutube c v videoFile
      else if lowerCaseIs p ''tiktok'' then publishToTikTok c v videoFile
      else if lowerCaseIs p ''instagram'' then publishToInstagram c v videoFile
      else \<lparr> success = False, platform = p, url = None, message = None,
             error = Some (''Unsupported platform: '' @ p) \<rparr>)"

text \<open>\<open>publishVideo\<close>: \<open>Inl\<close> is the exception the call throws, \<open>Inr\<close> the list it returns.\<close>

definition publishVideo ::
  "host \<Rightarrow> socialMediaAuthConfig \<Rightarrow> video \<Rightarrow> string list \<Rightarrow> exn + publishResult list" where
  "publishVideo h c v ps =
     (if \<not> truthy (videoUrl v)
      then Inr [\<lparr> success = False, platform = ''all'', url = None, message = None,
                  error = Some ''No video URL available'' \<rparr>]
      else
        (case videoFilePath h (orDefault (videoUrl v) []) of
           None \<Rightarrow> Inl InvalidUrl
         | Some file \<Rightarrow>
             if \<not> fsAccess h file
             then Inr [\<lparr> success = False, platform = ''all'', url = None, message = None,
                         error = Some ''Video file not found'' \<rparr>]
             else Inr (map (publishTo c v file) ps)))"

text \<open>
  The configurations the service can hold while the server runs in an environment \<open>E\<close>:
  the constructor loads the empty configuration, and afterwards only \<open>reloadConfig\<close> and
  \<open>setAccessToken\<close> write it. No code of the repository assigns to \<open>process.env\<close>, so
  the environment is the one the process started with.
\<close>

inductive reachable :: "environment \<Rightarrow> socialMediaAuthConfig \<Rightarrow> bool" for E where
  constructed: "reachable E (loadConfig E emptyConfig)"
| reloaded: "reachable E c \<Longrightarrow> reachable E (loadConfig E c)"
| tokenSet: "reachable E c \<Longrightarrow> reachable E (snd (setAccessToken c p token))"

text \<open>What the configuration of a running service holds: an entry for youtube (for
  tiktok) exists exactly when both of its variables are present, and carries the client
  identifier of the environment.\<close>

definition loadedFrom :: "environment \<Rightarrow> socialMediaAuthConfig \<Rightarrow> bool" where
  "loadedFrom E c =
     ((case youtube c of
         None \<Rightarrow> \<not> (truthy (E ''YOUTUBE_CLIENT_ID'') \<and> truthy (E ''YOUTUBE_CLIENT_SECRET''))
       | Some y \<Rightarrow> truthy (E ''YOUTUBE_CLIENT_ID'') \<and> truthy (E ''YOUTUBE_CLIENT_SECRET'') \<and>
                  youtubeConfig.clientId y = orDefault (E ''YOUTUBE_CLIENT_ID'') []) \<and>
      (case tiktok c of
         None \<Rightarrow> \<not> (truthy (E ''TIKTOK_CLIENT_KEY'') \<and> truthy (E ''TIKTOK_CLIENT_SECRET''))
       | Some t \<Rightarrow> truthy (E ''TIKTOK_CLIENT_KEY'') \<and> truthy (E ''TIKTOK_CLIENT_SECRET'') \<and>
                  tiktokConfig.clientKey t = orDefault (E ''TIKTOK_CLIENT_KEY'') []))"

section \<open>The routes (routes.ts)\<close>

subsection \<open>Validation\<close>

text \<open>
  The issues a failed \<open>schema.parse\<close> reports, each with the path of the offending value.
  \<open>fromZodError\<close> renders them as one message that starts with \<open>Validation error\<close>; the
  response body \<open>ValidationBody\<close> below stands for that (non-empty) message.
\<close>

datatype pathElem = Key string | Index nat

datatype zodIssue = InvalidType "pathElem list" | TooSmall "pathElem list" string

fun asString :: "json \<Rightarrow> string option" where
  "asString (JStr s) = Some s"
| "asString _ = None"

text \<open>\<open>z.object({ platforms: z.array(z.string()).min(1, "At least one platform must be
  selected") })\<close>: the input must be an object whose \<open>platforms\<close> (read as
  \<open>data.platforms\<close>, so through the prototype when the object has no such property of its
  own) is an array; the length check comes first, then the elements in order; a successful
  parse keeps \<open>platforms\<close> only.\<close>

fun isObject :: "json \<Rightarrow> bool" where
  "isObject (JObj kvs) = True"
| "isObject (JProto p kvs) = True"
| "isObject _ = False"

definition publishSchema :: "json \<Rightarrow> zodIssue list + string list" where
  "publishSchema data =
     (if isObject data then
          (case getProperty data ''platforms'' of
             Some (JArr xs) \<Rightarrow>
               (let issues =
                      (if length xs < 1
                       then [TooSmall [Key ''platforms''] ''At least one platform must be selected'']
                       else []) @
                      [InvalidType [Key ''platforms'', Index i].
                         (i, x) \<leftarrow> enumerate 0 xs, asString x = None]
                in if issues = [] then Inr (map (\<lambda>x. case asString x of Some t \<Rightarrow> t | None \<Rightarrow> []) xs)
                   else Inl issues)
           | _ \<Rightarrow> Inl [InvalidType [Key ''platforms'']])
      else Inl [InvalidType []])"

text \<open>\<open>validateRequest\<close>: sanitize, then parse; \<open>Inl\<close> is \<open>{ data: null, error }\<close> and
  \<open>Inr\<close> is \<open>{ data, error: null }\<close>.\<close>

definition validateRequest :: "(json \<Rightarrow> zodIssue list + 'a) \<Rightarrow> json \<Rightarrow> zodIssue list + 'a" where
  "validateRequest schema data = schema (sanitizeInput data)"

subsection \<open>Responses and the server's state\<close>

datatype body =
    MessageBody string
  | ValidationBody "zodIssue list"
  | FailureBody string
  | ErrorBody string
  | ResultsBody "publishResult list"
  | AuthUrlBody string
  | HtmlBody string string
  | SecretsBody "string list" "string list" bool
  | FlagsBody "string \<rightharpoonup> bool"
  | UnexpectedErrorBody

text \<open>
  \<open>MessageBody m\<close> is \<open>{ message: m }\<close>, \<open>FailureBody e\<close> is \<open>{ success: false, error: e }\<close>,
  \<open>ErrorBody e\<close> is \<open>{ error: e }\<close>, \<open>ResultsBody rs\<close> is \<open>{ results: rs }\<close>,
  \<open>AuthUrlBody u\<close> is \<open>{ authUrl: u }\<close>, \<open>HtmlBody t p\<close> is the HTML page with title \<open>t\<close>
  and paragraph \<open>p\<close>, \<open>SecretsBody\<close> is \<open>{ checked, missing, complete }\<close>, \<open>FlagsBody\<close> is
  the object of flags by platform name, and \<open>UnexpectedErrorBody\<close> is what the error
  middleware sends with status 500 for an exception that reaches it:
  \<open>{ error: true, message: "An unexpected error occurred. Please try again later.",
  status: 500 }\<close>.
\<close>

record response =
  statusCode :: nat
  body :: body

record server =
  env :: environment
  config :: socialMediaAuthConfig
  storage :: memStorage

text \<open>The calls a handler makes to the storage and to the service, in order. A request is
  handled in one step: no other request runs between its \<open>await\<close>s.\<close>

datatype call =
    GetVideo jsNumber
  | CreateActivity string
  | UpdateVideo jsNumber
  | PublishVideo video "string list"
  | ReloadConfig
  | GetAuthorizationUrl string
  | SetAccessToken string string

text \<open>What handling a request leaves: the response sent, the server afterwards, the calls
  made.\<close>

record handled =
  reply :: response
  after :: server
  calls :: "call list"

subsection \<open>GET /api/social-media/auth-url/:platform\<close>

record authUrlRequest =
  paramsPlatform :: string
  hostHeader :: "string option"

definition authUrlHandler :: "server \<Rightarrow> authUrlRequest \<Rightarrow> handled" where
  "authUrlHandler w req =
     (let platformName = sanitizeString (paramsPlatform req);
          c = loadConfig (env w) (config w);
          hostName = orDefault (hostHeader req) ''localhost:5000'';
          authUrl = getAuthorizationUrl (env w) c platformName (Some hostName);
          w' = w\<lparr> config := c \<rparr>;
          cs = [ReloadConfig, GetAuthorizationUrl platformName]
      in if \<not> truthy authUrl
         then \<lparr> reply = \<lparr> statusCode = 400,
                          body = FailureBody (''Platform '' @ platformName @
                                              '' is not configured or not supported'') \<rparr>,
                after = w', calls = cs \<rparr>
         else \<lparr> reply = \<lparr> statusCode = 200, body = AuthUrlBody (orDefault authUrl []) \<rparr>,
                after = w', calls = cs \<rparr>)"

subsection \<open>GET /api/auth/youtube/callback\<close>

text \<open>
  A value of \<open>req.query\<close>: a string, an array or a nested object. Arrays and objects are
  truthy. \<open>qText\<close> is the string a template literal makes of the value; \<open>None\<close> is the
  \<open>TypeError\<close> it throws when an object has a property \<open>toString\<close> of its own, which is
  no function, so that the object has no primitive value.
\<close>

datatype qval = QString string | QArray "qval list" | QObject "(string \<times> qval) list"

definition qTruthy :: "qval option \<Rightarrow> bool" where
  "qTruthy x = (case x of None \<Rightarrow> False | Some (QString s) \<Rightarrow> s \<noteq> [] | Some _ \<Rightarrow> True)"

fun qText :: "qval \<Rightarrow> string option" where
  "qText (QString s) = Some s"
| "qText (QArray xs) = map_option (\<lambda>ts. join ts '','') (those (map qText xs))"
| "qText (QObject kvs) =
     (if ''toString'' \<in> set (map fst kvs) then None else Some ''[object Object]'')"

text \<open>The text of an optional parameter; an absent one is never rendered.\<close>

definition rendered :: "qval option \<Rightarrow> string option" where
  "rendered x = (case x of None \<Rightarrow> Some [] | Some v \<Rightarrow> qText v)"

record callbackQuery =
  code :: "qval option"
  error :: "qval option"

text \<open>
  The handler. The failure page of the \<open>error\<close> branch is built outside the \<open>try\<close>
  block: when the parameter has no text the exception goes to the error middleware. The
  log line that shows \<open>code\<close> is the first statement of the \<open>try\<close> block: when the
  parameter has no text the \<open>catch\<close> block answers.
\<close>

definition youtubeCallback :: "server \<Rightarrow> callbackQuery \<Rightarrow> handled" where
  "youtubeCallback w q =
     (if qTruthy (callbackQuery.error q)
      then (case rendered (callbackQuery.error q) of
              None \<Rightarrow>
                \<lparr> reply = \<lparr> statusCode = 500, body = UnexpectedErrorBody \<rparr>,
                  after = w, calls = [] \<rparr>
            | Some t \<Rightarrow>
                \<lparr> reply = \<lparr> statusCode = 400,
                            body = HtmlBody ''YouTube Connection Failed'' (''Error: '' @ t) \<rparr>,
                  after = w, calls = [] \<rparr>)
      else if \<not> qTruthy (code q)
      then \<lparr> reply = \<lparr> statusCode = 400,
                       body = HtmlBody ''Invalid Request'' ''No authorization code received.'' \<rparr>,
             after = w, calls = [] \<rparr>
      else if rendered (code q) = None \<or>
              \<not> truthy (env w ''YOUTUBE_CLIENT_ID'') \<or> \<not> truthy (env w ''YOUTUBE_CLIENT_SECRET'')
      then \<lparr> reply = \<lparr> statusCode = 500,
                       body = HtmlBody ''Connection Error''
                                ''There was an error connecting to YouTube. Please try again.'' \<rparr>,
             after = w, calls = [] \<rparr>
      else
        (let c = snd (setAccessToken (config w) ''youtube'' ''simulated_access_token'')
         in \<lparr> reply = \<lparr> statusCode = 200,
                         body = HtmlBody ''YouTube Connected''
                                  ''You may close this window and return to the application.'' \<rparr>,
               after = w\<lparr> config := c \<rparr>,
               calls = [SetAccessToken ''youtube'' ''simulated_access_token''] \<rparr>))"

subsection \<open>POST /api/videos/:id/publish\<close>

record publishRequest =
  paramsId :: string
  reqBody :: json

text \<open>A title between double quotes, as the activity messages show it.\<close>

definition quoted :: "string \<Rightarrow> string" where
  "quoted s = [CHR 0x22] @ s @ [CHR 0x22]"

definition publishHandler :: "host \<Rightarrow> server \<Rightarrow> publishRequest \<Rightarrow> handled" where
  "publishHandler h w req =
     (let i = parseInt h (sanitizeString (paramsId req)) in
      if i = NaN
      then \<lparr> reply = \<lparr> statusCode = 400, body = MessageBody ''Invalid video ID'' \<rparr>,
             after = w, calls = [] \<rparr>
      else
          (case validateRequest publishSchema (reqBody req) of
             Inl issues \<Rightarrow>
               \<lparr> reply = \<lparr> statusCode = 400, body = ValidationBody issues \<rparr>,
                 after = w, calls = [] \<rparr>
           | Inr ps \<Rightarrow>
               (case fst (getVideo (storage w) i) of
                  None \<Rightarrow>
                    \<lparr> reply = \<lparr> statusCode = 404, body = MessageBody ''Video not found'' \<rparr>,
                      after = w, calls = [GetVideo i] \<rparr>
                | Some v \<Rightarrow>
                    if \<not> truthy (videoUrl v)
                    then \<lparr> reply = \<lparr> statusCode = 400,
                                     body = MessageBody
                                       ''Video has not been generated yet. Generate the video first.'' \<rparr>,
                           after = w, calls = [GetVideo i] \<rparr>
                    else
                      (let s1 = snd (createActivity (dateNow h 0) (storage w)
                                  \<lparr> insertActivity.videoId = None,
                                    insertActivity.userId = video.userId v,
                                    insertActivity.action = ''video_publish_started'',
                                    insertActivity.details = Some (JObj
                                      [(''videoId'', JNum (video.ident v)),
                                       (''message'', JStr (''Started publishing '' @ quoted (title v) @
                                                          '' to '' @ join ps '', ''))]) \<rparr>);
                           cs = [GetVideo i, CreateActivity ''video_publish_started'',
                                 PublishVideo v ps]
                       in case publishVideo h (config w) v ps of
                            Inl e \<Rightarrow>
                              \<lparr> reply = \<lparr> statusCode = 500,
                                          body = FailureBody
                                            ''An unexpected error occurred while publishing the video'' \<rparr>,
                                after = w\<lparr> storage := s1 \<rparr>, calls = cs \<rparr>
                          | Inr results \<Rightarrow>
                              if list_ex success results
                              then
                                (let s2 = snd (updateVideo (dateNow h 1) s1 i
                                                 (\<lambda>x. x\<lparr> status := ''published'' \<rparr>));
                                     succeeded = map platform (filter success results);
                                     s3 = snd (createActivity (dateNow h 2) s2
                                            \<lparr> insertActivity.videoId = None,
                                              insertActivity.userId = video.userId v,
                                              insertActivity.action = ''video_published'',
                                              insertActivity.details = Some (JObj
                                                [(''videoId'', JNum (video.ident v)),
                                                 (''platforms'', JArr (map JStr succeeded)),
                                                 (''message'', JStr (''Published '' @ quoted (title v) @
                                                    '' to '' @ join succeeded '', ''))]) \<rparr>)
                                 in \<lparr> reply = \<lparr> statusCode = 200, body = ResultsBody results \<rparr>,
                                      after = w\<lparr> storage := s3 \<rparr>,
                                      calls = cs @ [UpdateVideo i, CreateActivity ''video_published''] \<rparr>)
                              else
                                \<lparr> reply = \<lparr> statusCode = 200, body = ResultsBody results \<rparr>,
                                  after = w\<lparr> storage := s1 \<rparr>, calls = cs \<rparr>))))"

subsection \<open>POST /api/check-secrets\<close>








section \<open>Sample values\<close>

text \<open>Concrete requests and states at which the theorems below are instantiated.\<close>

definition sampleActivity :: "int \<Rightarrow> int \<Rightarrow> int \<Rightarrow> activity" where
  "sampleActivity i u t =
     \<lparr> activity.ident = i, activity.videoId = None, activity.userId = u,
       activity.action = ''create_video'', activity.details = None,
       activity.createdAt = t \<rparr>"

definition sampleStorage :: memStorage where
  "sampleStorage =
     \<lparr> videos = Map.empty,
       activities = [(1, sampleActivity 1 1 1000), (2, sampleActivity 2 2 2000),
                     (3, sampleActivity 3 1 3000), (4, sampleActivity 4 1 2000)],
       activityIdCounter = 5 \<rparr>"

definition sampleEnvYoutube :: environment where
  "sampleEnvYoutube =
     [''YOUTUBE_CLIENT_ID'' \<mapsto> ''my-client'', ''YOUTUBE_CLIENT_SECRET'' \<mapsto> ''s3cret'']"

definition sampleEnvInstagram :: environment where
  "sampleEnvInstagram = [''INSTAGRAM_ACCESS_TOKEN'' \<mapsto> ''token'']"

definition sampleEnvFacebook :: environment where
  "sampleEnvFacebook = [''FACEBOOK_APP_ID'' \<mapsto> ''fb-app'']"

text \<open>A server started in an environment: the service has loaded its configuration from
  it, and the storage is the given one.\<close>

definition startedServer :: "environment \<Rightarrow> memStorage \<Rightarrow> server" where
  "startedServer E s = \<lparr> env = E, config = loadConfig E emptyConfig, storage = s \<rparr>"

definition sampleEnvAuthorized :: environment where
  "sampleEnvAuthorized =
     [''YOUTUBE_CLIENT_ID'' \<mapsto> ''my-client'', ''YOUTUBE_CLIENT_SECRET'' \<mapsto> ''s3cret'',
      ''YOUTUBE_ACCESS_TOKEN'' \<mapsto> ''ya29.token'']"

text \<open>
  A host for the sample requests. Its \<open>parseInt\<close> reads a string of one to fifteen decimal
  digits, where it is JavaScript's \<open>parseInt\<close>; the sample requests carry no other id.
\<close>

definition decimalDigit :: "char \<Rightarrow> bool" where
  "decimalDigit c = (48 \<le> (of_char c :: nat) \<and> (of_char c :: nat) \<le> 57)"

definition decimalValue :: "string \<Rightarrow> jsNumber" where
  "decimalValue s =
     (if s \<noteq> [] \<and> length s \<le> 15 \<and> list_all decimalDigit s
      then Finite (foldl (\<lambda>acc c. acc * 10 + (int (of_char c) - 48)) 0 s)
      else NaN)"

definition sampleHost :: host where
  "sampleHost =
     \<lparr> parseInt = decimalValue,
       videoFilePath = (\<lambda>u. Some ''/srv/app/public/generated/clip.mp4''),
       fsAccess = (\<lambda>p. True),
       dateNow = (\<lambda>k. 5000 + int k) \<rparr>"

definition sampleVideo :: video where
  "sampleVideo =
     \<lparr> video.ident = 7, title = ''Launch'', prompt = ''A product launch teaser'',
       style = ''cinematic'', duration = ''30s'', aspectRatio = ''16:9'',
       platforms = Some [''youtube''], status = ''completed'', thumbnailUrl = None,
       videoUrl = Some ''/generated/clip.mp4'', video.createdAt = 900, video.userId = 1 \<rparr>"

definition sampleStorageWithVideo :: memStorage where
  "sampleStorageWithVideo = sampleStorage\<lparr> videos := [7 \<mapsto> sampleVideo] \<rparr>"

definition samplePublishRequest :: "string list \<Rightarrow> publishRequest" where
  "samplePublishRequest ps =
     \<lparr> paramsId = ''7'', reqBody = JObj [(''platforms'', JArr (map JStr ps))] \<rparr>"

definition sampleFailures :: "publishResult list" where
  "sampleFailures =
     [\<lparr> success = False, platform = ''youtube'', url = None, message = None,
        error = Some ''YouTube not authorized. Please connect your YouTube account.'' \<rparr>,
      \<lparr> success = False, platform = ''vimeo'', url = None, message = None,
        error = Some ''Unsupported platform: vimeo'' \<rparr>]"

definition sampleMixed :: "publishResult list" where
  "sampleMixed =
     [\<lparr> success = True, platform = ''youtube'',
        url = Some ''https://youtube.com/watch?v=dQw4w9WgXcQ'',
        message = Some ''Video successfully published to YouTube'', error = None \<rparr>,
      \<lparr> success = False, platform = ''vimeo'', url = None, message = None,
        error = Some ''Unsupported platform: vimeo'' \<rparr>]"

section \<open>The sanitizer\<close>

lemma replaceAll_absent: "c \<notin> set s \<Longrightarrow> replaceAll c rep s = s"
  by (induction s) (auto simp: replaceAll_def)

lemma set_replaceAll: "set (replaceAll c rep s) \<subseteq> (set s - {c}) \<union> set rep"
  by (induction s) (auto simp: replaceAll_def)

lemma sanitizeString_clean: "set (sanitizeString s) \<inter> set rawChars = {}"
proof -
  let ?s1 = "replaceAll (CHR ''<'') ''&lt;'' s"
  let ?s2 = "replaceAll (CHR ''>'') ''&gt;'' ?s1"
  let ?s3 = "replaceAll (CHR 0x22) ''&quot;'' ?s2"
  let ?s4 = "replaceAll (CHR 0x27) ''&#x27;'' ?s3"
  let ?s5 = "replaceAll (CHR ''/'') ''&#x2F;'' ?s4"
  have 1: "CHR ''<'' \<notin> set ?s1"
    using set_replaceAll[of "CHR ''<''" "''&lt;''" s] by auto
  have 2: "CHR ''<'' \<notin> set ?s2" "CHR ''>'' \<notin> set ?s2"
    using 1 set_replaceAll[of "CHR ''>''" "''&gt;''" ?s1] by auto
  have 3: "CHR ''<'' \<notin> set ?s3" "CHR ''>'' \<notin> set ?s3" "CHR 0x22 \<notin> set ?s3"
    using 2 set_replaceAll[of "CHR 0x22" "''&quot;''" ?s2] by auto
  have 4: "CHR ''<'' \<notin> set ?s4" "CHR ''>'' \<notin> set ?s4" "CHR 0x22 \<notin> set ?s4"
    "CHR 0x27 \<notin> set ?s4"
    using 3 set_replaceAll[of "CHR 0x27" "''&#x27;''" ?s3] by auto
  have 5: "CHR ''<'' \<notin> set ?s5" "CHR ''>'' \<notin> set ?s5" "CHR 0x22 \<notin> set ?s5"
    "CHR 0x27 \<notin> set ?s5" "CHR ''/'' \<notin> set ?s5"
    using 4 set_replaceAll[of "CHR ''/''" "''&#x2F;''" ?s4] by auto
  show ?thesis using 5 by (simp add: sanitizeString_def rawChars_def)
qed

lemma sanitizeString_fixed: "set s \<inter> set rawChars = {} \<Longrightarrow> sanitizeString s = s"
  by (simp add: sanitizeString_def rawChars_def replaceAll_absent)

lemma sanitizeString_idem: "sanitizeString (sanitizeString s) = sanitizeString s"
  by (rule sanitizeString_fixed) (rule sanitizeString_clean)

lemma protoValue_sanitizeInput: "protoValue (sanitizeInput v) = protoValue v"
  by (cases v) (auto simp: assignAll_def Let_def split: option.splits)

lemma filter_map_values:
  "filter (\<lambda>(k, v). P k) (map (\<lambda>(k, v). (k, f v)) kvs) =
   map (\<lambda>(k, v). (k, f v)) (filter (\<lambda>(k, v). P k) kvs)"
  by (induction kvs) auto

lemma map_of_filter_other:
  "k \<noteq> n \<Longrightarrow> map_of (filter (\<lambda>(k', v). k' \<noteq> n) kvs) k = map_of kvs k"
  by (induction kvs) auto

lemma map_of_filter_same: "map_of (filter (\<lambda>(k', v). k' \<noteq> n) kvs) n = None"
  by (induction kvs) auto

lemma assignAll_plain:
  "map_of kvs ''__proto__'' = None \<Longrightarrow> assignAll kvs = JObj kvs"
proof -
  assume a: "map_of kvs ''__proto__'' = None"
  then have "\<forall>(k, v) \<in> set kvs. k \<noteq> ''__proto__''"
    by (auto simp: map_of_eq_None_iff image_iff)
  then have "filter (\<lambda>(k, v). k \<noteq> ''__proto__'') kvs = kvs"
    by (induction kvs) auto
  with a show ?thesis by (simp add: assignAll_def)
qed

lemma assignAll_strings:
  "s \<in> set (json_strings (assignAll kvs)) \<Longrightarrow> \<exists>(k, v) \<in> set kvs. s \<in> set (json_strings v)"
  by (auto simp: assignAll_def Let_def split: option.splits if_splits dest: map_of_SomeD)

lemma sanitizeInput_strings:
  "s \<in> set (json_strings (sanitizeInput x)) \<Longrightarrow> set s \<inter> set rawChars = {}"
proof (induction x arbitrary: s rule: sanitizeInput.induct)
  case (5 t)
  then show ?case using sanitizeString_clean[of t] by simp
next
  case (6 xs)
  then show ?case by auto
next
  case (7 kvs)
  from 7(2) obtain k v where "(k, v) \<in> set kvs" "s \<in> set (json_strings (sanitizeInput v))"
    using assignAll_strings[of s "map (\<lambda>(k, v). (k, sanitizeInput v)) kvs"] by auto
  then show ?case using 7(1) by blast
next
  case (8 p kvs)
  from 8(2) obtain k v where "(k, v) \<in> set kvs" "s \<in> set (json_strings (sanitizeInput v))"
    using assignAll_strings[of s "map (\<lambda>(k, v). (k, sanitizeInput v)) kvs"] by auto
  then show ?case using 8(1) by blast
qed simp_all

text \<open>The rebuilt object when no prototype is set: the own properties other than
  \<open>__proto__\<close>, sanitized; a second pass leaves it as it is.\<close>

lemma sanitize_object_plain:
  assumes "case map_of kvs ''__proto__'' of None \<Rightarrow> True | Some p \<Rightarrow> \<not> protoValue p"
  shows "assignAll (map (\<lambda>(k, v). (k, sanitizeInput v)) kvs) =
         JObj (map (\<lambda>(k, v). (k, sanitizeInput v)) (filter (\<lambda>(k, v). k \<noteq> ''__proto__'') kvs))"
  using assms
  by (auto simp: assignAll_def Let_def map_of_map filter_map_values protoValue_sanitizeInput
      split: option.splits)

lemma sanitize_object_idem:
  assumes plain: "case map_of kvs ''__proto__'' of None \<Rightarrow> True | Some p \<Rightarrow> \<not> protoValue p"
      and IH: "\<And>k v. (k, v) \<in> set kvs \<Longrightarrow> sanitizeInput (sanitizeInput v) = sanitizeInput v"
  shows "sanitizeInput (assignAll (map (\<lambda>(k, v). (k, sanitizeInput v)) kvs)) =
         assignAll (map (\<lambda>(k, v). (k, sanitizeInput v)) kvs)"
proof -
  let ?own = "filter (\<lambda>(k, v). k \<noteq> ''__proto__'') kvs"
  let ?san = "map (\<lambda>(k, v). (k, sanitizeInput v))"
  have first: "assignAll (?san kvs) = JObj (?san ?own)"
    using sanitize_object_plain[OF plain] .
  have again: "?san (?san ?own) = ?san ?own"
    using IH by (induction kvs) auto
  have "map_of (?san ?own) ''__proto__'' = None"
    by (simp add: map_of_map map_of_filter_same)
  then have plain_again: "assignAll (?san ?own) = JObj (?san ?own)"
    by (rule assignAll_plain)
  have "sanitizeInput (JObj (?san ?own)) = assignAll (?san (?san ?own))"
    by (simp only: sanitizeInput.simps)
  also have "\<dots> = JObj (?san ?own)"
    by (simp only: again plain_again)
  finally show ?thesis
    by (simp only: first)
qed

lemma sanitizeInput_idem:
  "\<not> setsPrototype x \<Longrightarrow> sanitizeInput (sanitizeInput x) = sanitizeInput x"
proof (induction x rule: sanitizeInput.induct)
  case (5 s)
  then show ?case by (simp add: sanitizeString_idem)
next
  case (6 xs)
  then show ?case by (auto simp: list_ex_iff)
next
  case (7 kvs)
  have plain: "case map_of kvs ''__proto__'' of None \<Rightarrow> True | Some p \<Rightarrow> \<not> protoValue p"
    using 7(2) by (auto split: option.splits)
  have IH: "sanitizeInput (sanitizeInput v) = sanitizeInput v" if "(k, v) \<in> set kvs" for k v
    using 7(1)[OF that refl] 7(2) that by (auto simp: list_ex_iff)
  show ?case using sanitize_object_idem[OF plain IH] by simp
next
  case (8 p kvs)
  have plain: "case map_of kvs ''__proto__'' of None \<Rightarrow> True | Some p \<Rightarrow> \<not> protoValue p"
    using 8(2) by (auto split: option.splits)
  have IH: "sanitizeInput (sanitizeInput v) = sanitizeInput v" if "(k, v) \<in> set kvs" for k v
    using 8(1)[OF that refl] 8(2) that by (auto simp: list_ex_iff)
  show ?case using sanitize_object_idem[OF plain IH] by simp
qed simp_all

text \<open>
  C9, as the code has it. The request sanitizer is idempotent on every value in which no
  object has an own property \<open>__proto__\<close> whose value is an object, an array or \<open>null\<close>;
  and for every value, no string value of the sanitized value (at any depth, behind a
  prototype included) contains one of the five raw characters \<open><\<close>, \<open>>\<close>, double quote,
  single quote and \<open>/\<close>. Property names are not sanitized.
\<close>

theorem sanitizeInput_idempotent_clean:
  "(\<not> setsPrototype x \<longrightarrow> sanitizeInput (sanitizeInput x) = sanitizeInput x) \<and>
   (\<forall>s \<in> set (json_strings (sanitizeInput x)). \<forall>c \<in> set s. c \<notin> set rawChars)"
  using sanitizeInput_idem sanitizeInput_strings by blast

theorem sanitizeInput_idempotent_clean_witness:
  "\<not> setsPrototype (JObj [(''a'', JArr [JStr ''<b>'', JNum 3]), (''__proto__'', JStr ''/'')]) \<and>
   sanitizeInput (JObj [(''a'', JArr [JStr ''<b>'', JNum 3]), (''__proto__'', JStr ''/'')]) =
     JObj [(''a'', JArr [JStr ''&lt;b&gt;'', JNum 3])] \<and>
   sanitizeInput (sanitizeInput
       (JObj [(''a'', JArr [JStr ''<b>'', JNum 3]), (''__proto__'', JStr ''/'')])) =
     JObj [(''a'', JArr [JStr ''&lt;b&gt;'', JNum 3])] \<and>
   ''&lt;b&gt;'' \<in> set (json_strings (sanitizeInput
       (JObj [(''a'', JArr [JStr ''<b>'', JNum 3]), (''__proto__'', JStr ''/'')]))) \<and>
   CHR ''&'' \<in> set ''&lt;b&gt;'' \<and> CHR ''&'' \<notin> set rawChars"
proof -
  let ?x = "JObj [(''a'', JArr [JStr ''<b>'', JNum 3]), (''__proto__'', JStr ''/'')]"
  have n: "\<not> setsPrototype ?x" by simp
  have v: "sanitizeInput ?x = JObj [(''a'', JArr [JStr ''&lt;b&gt;'', JNum 3])]"
    by code_simp
  show ?thesis
    using sanitizeInput_idempotent_clean[of ?x] n v by (simp add: rawChars_def)
qed

text \<open>
  C9 as stated fails twice. A property name is a string of the output and is kept raw:
  the name \<open><script>\<close> survives. And an own property \<open>__proto__\<close> with an object value
  becomes the prototype of the sanitized object, which a second pass drops: the two
  results differ (the first still answers \<open>.a\<close> through its prototype).
\<close>

theorem sanitizeInput_name_raw_and_prototype_counterexample:
  "sanitizeInput (JObj [(''<script>'', JStr ''x'')]) = JObj [(''<script>'', JStr ''x'')] \<and>
   ''<script>'' \<in> set (json_names (sanitizeInput (JObj [(''<script>'', JStr ''x'')]))) \<and>
   CHR ''<'' \<in> set ''<script>'' \<and> CHR ''<'' \<in> set rawChars \<and>
   sanitizeInput (JObj [(''__proto__'', JObj [(''a'', JStr ''b'')])]) =
     JProto (JObj [(''a'', JStr ''b'')]) [] \<and>
   sanitizeInput (sanitizeInput (JObj [(''__proto__'', JObj [(''a'', JStr ''b'')])])) = JObj [] \<and>
   sanitizeInput (sanitizeInput (JObj [(''__proto__'', JObj [(''a'', JStr ''b'')])])) \<noteq>
     sanitizeInput (JObj [(''__proto__'', JObj [(''a'', JStr ''b'')])]) \<and>
   getProperty (sanitizeInput (JObj [(''__proto__'', JObj [(''a'', JStr ''b'')])])) ''a'' =
     Some (JStr ''b'') \<and>
   getProperty (sanitizeInput (sanitizeInput (JObj [(''__proto__'', JObj [(''a'', JStr ''b'')])])))
     ''a'' = None"
proof -
  have a: "sanitizeInput (JObj [(''<script>'', JStr ''x'')]) = JObj [(''<script>'', JStr ''x'')]"
    by code_simp
  have b: "sanitizeInput (JObj [(''__proto__'', JObj [(''a'', JStr ''b'')])]) =
      JProto (JObj [(''a'', JStr ''b'')]) []"
    by code_simp
  have c: "sanitizeInput (JProto (JObj [(''a'', JStr ''b'')]) []) = JObj []"
    by code_simp
  have d: "''<script>'' \<in> set (json_names (JObj [(''<script>'', JStr ''x'')]))"
    "CHR ''<'' \<in> set ''<script>''" "CHR ''<'' \<in> set rawChars"
    "JObj [] \<noteq> JProto (JObj [(''a'', JStr ''b'')]) []"
    "getProperty (JProto (JObj [(''a'', JStr ''b'')]) []) ''a'' = Some (JStr ''b'')"
    "getProperty (JObj []) ''a'' = None"
    by (simp_all add: rawChars_def)
  show ?thesis
    unfolding a b c using d by (intro conjI) (rule refl | assumption)+
qed

section \<open>Activities of a user\<close>

lemma sort_key_newest_first:
  "sorted_wrt (\<lambda>a b. activity.createdAt b \<le> activity.createdAt a)
     (sort_key (\<lambda>a. - activity.createdAt a) xs)"
  using sorted_sort_key[of "\<lambda>a. - activity.createdAt a" xs]
  by (simp add: sorted_map)

lemma slice0_positive: "0 < n \<Longrightarrow> slice0 xs n = take (nat n) xs"
  by (cases "n \<le> int (length xs)") (auto simp: slice0_def min_def)

lemma sorted_wrt_take_drop:
  "sorted_wrt R xs \<Longrightarrow> a \<in> set (take n xs) \<Longrightarrow> b \<in> set (drop n xs) \<Longrightarrow> R a b"
  using sorted_wrt_append[of R "take n xs" "drop n xs"] by simp

text \<open>
  C10, as the code has it. Without a limit \<open>getActivitiesByUserId\<close> returns exactly the
  stored activities of the user (as a multiset), newest first. With a positive limit \<open>n\<close>
  it returns the first \<open>n\<close> of that list: at most \<open>n\<close> entries, and none of the entries
  left out is newer than a returned one. The storage is the same afterwards, whatever the
  limit.
\<close>

theorem getActivitiesByUserId_positive_limit:
  "mset (fst (getActivitiesByUserId s uid None)) =
     mset (filter (\<lambda>a. activity.userId a = uid) (mapValues (activities s))) \<and>
   sorted_wrt (\<lambda>a b. activity.createdAt b \<le> activity.createdAt a)
     (fst (getActivitiesByUserId s uid None)) \<and>
   (0 < n \<longrightarrow>
      fst (getActivitiesByUserId s uid (Some n)) =
        take (nat n) (fst (getActivitiesByUserId s uid None)) \<and>
      int (length (fst (getActivitiesByUserId s uid (Some n)))) \<le> n \<and>
      (\<forall>a \<in> set (fst (getActivitiesByUserId s uid (Some n))).
         \<forall>b \<in> set (drop (nat n) (fst (getActivitiesByUserId s uid None))).
           activity.createdAt b \<le> activity.createdAt a)) \<and>
   snd (getActivitiesByUserId s uid limit) = s"
proof -
  let ?all = "fst (getActivitiesByUserId s uid None)"
  have all: "?all = sort_key (\<lambda>a. - activity.createdAt a)
                 (filter (\<lambda>a. activity.userId a = uid) (mapValues (activities s)))"
    by (simp add: getActivitiesByUserId_def)
  have perm: "mset ?all = mset (filter (\<lambda>a. activity.userId a = uid) (mapValues (activities s)))"
    unfolding all by simp
  have sorted: "sorted_wrt (\<lambda>a b. activity.createdAt b \<le> activity.createdAt a) ?all"
    unfolding all by (rule sort_key_newest_first)
  have frame: "snd (getActivitiesByUserId s uid limit) = s"
    by (simp add: getActivitiesByUserId_def Let_def)
  have limited: "fst (getActivitiesByUserId s uid (Some n)) = take (nat n) ?all" if "0 < n"
    using that by (simp add: getActivitiesByUserId_def slice0_positive)
  have len: "int (length (take (nat n) ?all)) \<le> n" if "0 < n"
    using that by simp
  have newest: "activity.createdAt b \<le> activity.createdAt a"
    if "a \<in> set (take (nat n) ?all)" "b \<in> set (drop (nat n) ?all)" for a b
    using sorted_wrt_take_drop[OF sorted that] .
  show ?thesis
    using perm sorted frame limited len newest by metis
qed

theorem getActivitiesByUserId_positive_limit_witness:
  "(0::int) < 2 \<and>
   map activity.ident (fst (getActivitiesByUserId sampleStorage 1 None)) = [3, 4, 1] \<and>
   map activity.ident (fst (getActivitiesByUserId sampleStorage 1 (Some 2))) = [3, 4] \<and>
   int (length (fst (getActivitiesByUserId sampleStorage 1 (Some 2)))) \<le> 2 \<and>
   sampleActivity 3 1 3000 \<in> set (fst (getActivitiesByUserId sampleStorage 1 (Some 2))) \<and>
   sampleActivity 1 1 1000 \<in> set (drop (nat 2) (fst (getActivitiesByUserId sampleStorage 1 None))) \<and>
   activity.createdAt (sampleActivity 1 1 1000) \<le> activity.createdAt (sampleActivity 3 1 3000) \<and>
   snd (getActivitiesByUserId sampleStorage 1 (Some 2)) = sampleStorage"
  using getActivitiesByUserId_positive_limit[of sampleStorage 1 2 "Some 2"]
  by (simp add: getActivitiesByUserId_def sampleStorage_def sampleActivity_def mapValues_def
      slice0_def)

text \<open>
  C10 as stated fails: a limit of \<open>0\<close> is supplied and one entry is returned, since the
  test \<open>limit ? ... : ...\<close> takes \<open>0\<close> for no limit.
\<close>

theorem getActivitiesByUserId_limit_zero_counterexample:
  "map activity.ident (fst (getActivitiesByUserId sampleStorage 2 (Some 0))) = [2] \<and>
   \<not> int (length (fst (getActivitiesByUserId sampleStorage 2 (Some 0)))) \<le> 0"
  by (simp add: getActivitiesByUserId_def sampleStorage_def sampleActivity_def mapValues_def)

section \<open>Which platforms are configured\<close>










section \<open>The YouTube OAuth callback\<close>

lemma loadedFrom_loadConfig: "loadedFrom E c \<Longrightarrow> loadedFrom E (loadConfig E c)"
  by (auto simp: loadedFrom_def loadConfig_def Let_def split: option.splits)

lemma loadedFrom_setAccessToken: "loadedFrom E c \<Longrightarrow> loadedFrom E (snd (setAccessToken c p token))"
  by (auto simp: loadedFrom_def setAccessToken_def split: option.splits)

lemma reachable_loadedFrom: "reachable E c \<Longrightarrow> loadedFrom E c"
proof (induction rule: reachable.induct)
  case constructed
  show ?case
    by (auto simp: loadedFrom_def loadConfig_def emptyConfig_def Let_def split: option.splits)
next
  case (reloaded c)
  from reloaded.IH show ?case by (rule loadedFrom_loadConfig)
next
  case (tokenSet c p token)
  from tokenSet.IH show ?case by (rule loadedFrom_setAccessToken)
qed

lemma reachable_youtube:
  "reachable E c \<Longrightarrow> truthy (E ''YOUTUBE_CLIENT_ID'') \<Longrightarrow> truthy (E ''YOUTUBE_CLIENT_SECRET'')
   \<Longrightarrow> youtube c \<noteq> None"
  using reachable_loadedFrom[of E c] by (auto simp: loadedFrom_def split: option.splits)

lemma setAccessToken_youtube_present:
  "youtube c = Some y \<Longrightarrow>
   setAccessToken c ''youtube'' token =
     (True, c\<lparr> youtube := Some (y\<lparr> youtubeConfig.accessToken := Some token \<rparr>) \<rparr>)"
  by (simp add: setAccessToken_def lowerChar_def)

lemma rendered_falsy: "\<not> qTruthy x \<Longrightarrow> rendered x \<noteq> None"
  by (auto simp: qTruthy_def rendered_def split: option.splits qval.splits)

text \<open>
  C6. A callback whose \<open>error\<close> parameter is present, or whose \<open>code\<close> and \<open>error\<close> are
  both absent, is answered with a failure: the 400 failure page, or, when the \<open>error\<close>
  parameter is an object that has no text (it carries a \<open>toString\<close> member of its own),
  the 500 of the error middleware; a string always has a text. The handler makes no call to
  \<open>setAccessToken\<close> (it makes no call at all) and the server, the service's tokens
  included, is exactly as before. Present is the handler's own test: the parameter is
  defined and is not the empty string.
\<close>

theorem youtubeCallback_without_code:
  assumes "qTruthy (callbackQuery.error q) \<or>
           (\<not> qTruthy (code q) \<and> \<not> qTruthy (callbackQuery.error q))"
  shows "statusCode (reply (youtubeCallback w q)) =
           (if rendered (callbackQuery.error q) = None then 500 else 400) \<and>
         calls (youtubeCallback w q) = [] \<and>
         after (youtubeCallback w q) = w \<and>
         config (after (youtubeCallback w q)) = config w \<and>
         (callbackQuery.error q = Some (QString e) \<longrightarrow>
            statusCode (reply (youtubeCallback w q)) = 400)"
  using assms rendered_falsy[of "callbackQuery.error q"]
  by (auto simp: youtubeCallback_def rendered_def split: option.splits)

theorem youtubeCallback_without_code_witness:
  "qTruthy (callbackQuery.error \<lparr> code = None, error = Some (QString ''access_denied'') \<rparr>) \<and>
   reply (youtubeCallback (startedServer sampleEnvYoutube sampleStorage)
            \<lparr> code = None, error = Some (QString ''access_denied'') \<rparr>) =
     \<lparr> statusCode = 400,
       body = HtmlBody ''YouTube Connection Failed'' ''Error: access_denied'' \<rparr> \<and>
   after (youtubeCallback (startedServer sampleEnvYoutube sampleStorage)
            \<lparr> code = None, error = Some (QString ''access_denied'') \<rparr>) =
     startedServer sampleEnvYoutube sampleStorage \<and>
   \<not> qTruthy (code \<lparr> code = None, error = None \<rparr>) \<and>
   \<not> qTruthy (callbackQuery.error \<lparr> code = None, error = None \<rparr>) \<and>
   statusCode (reply (youtubeCallback (startedServer sampleEnvYoutube sampleStorage)
            \<lparr> code = None, error = None \<rparr>)) = 400 \<and>
   calls (youtubeCallback (startedServer sampleEnvYoutube sampleStorage)
            \<lparr> code = None, error = None \<rparr>) = []"
  using youtubeCallback_without_code[of "\<lparr> code = None, error = Some (QString ''access_denied'') \<rparr>"
      "startedServer sampleEnvYoutube sampleStorage" "''access_denied''"]
    youtubeCallback_without_code[of "\<lparr> code = None, error = None \<rparr>"
      "startedServer sampleEnvYoutube sampleStorage" "''access_denied''"]
  by (simp add: qTruthy_def youtubeCallback_def rendered_def)

text \<open>
  C7. A callback that carries an authorization code (and no error) is decided by the two
  variables \<open>YOUTUBE_CLIENT_ID\<close> and \<open>YOUTUBE_CLIENT_SECRET\<close> of the environment. If one
  of them is missing the answer is the 500 failure page, no call is made and the server is
  unchanged. If both are present the handler calls
  \<open>setAccessToken('youtube', 'simulated_access_token')\<close>, the call returns \<open>true\<close>, the
  youtube entry of the service holds that token afterwards, nothing else of the server
  changes, and the answer is the 200 success page. The service's configuration is any one
  the running service can hold in that environment. The code has a text, as every string
  has; for an object without one the answer is the same 500 failure page, with no call.
\<close>

theorem youtubeCallback_with_code:
  assumes "reachable (env w) (config w)"
      and "qTruthy (code q)"
      and "\<not> qTruthy (callbackQuery.error q)"
  shows "(rendered (code q) = None \<or>
          \<not> (truthy (env w ''YOUTUBE_CLIENT_ID'') \<and> truthy (env w ''YOUTUBE_CLIENT_SECRET'')) \<longrightarrow>
            statusCode (reply (youtubeCallback w q)) = 500 \<and>
            calls (youtubeCallback w q) = [] \<and>
            after (youtubeCallback w q) = w) \<and>
         (rendered (code q) \<noteq> None \<and>
          truthy (env w ''YOUTUBE_CLIENT_ID'') \<and> truthy (env w ''YOUTUBE_CLIENT_SECRET'') \<longrightarrow>
            statusCode (reply (youtubeCallback w q)) = 200 \<and>
            calls (youtubeCallback w q) = [SetAccessToken ''youtube'' ''simulated_access_token''] \<and>
            fst (setAccessToken (config w) ''youtube'' ''simulated_access_token'') \<and>
            map_option youtubeConfig.accessToken (youtube (config (after (youtubeCallback w q)))) =
              Some (Some ''simulated_access_token'') \<and>
            tiktok (config (after (youtubeCallback w q))) = tiktok (config w) \<and>
            instagram (config (after (youtubeCallback w q))) = instagram (config w) \<and>
            env (after (youtubeCallback w q)) = env w \<and>
            storage (after (youtubeCallback w q)) = storage w) \<and>
         (code q = Some (QString s) \<longrightarrow> rendered (code q) \<noteq> None)"
proof -
  have ok: "statusCode (reply (youtubeCallback w q)) = 200 \<and>
            calls (youtubeCallback w q) = [SetAccessToken ''youtube'' ''simulated_access_token''] \<and>
            fst (setAccessToken (config w) ''youtube'' ''simulated_access_token'') \<and>
            map_option youtubeConfig.accessToken (youtube (config (after (youtubeCallback w q)))) =
              Some (Some ''simulated_access_token'') \<and>
            tiktok (config (after (youtubeCallback w q))) = tiktok (config w) \<and>
            instagram (config (after (youtubeCallback w q))) = instagram (config w) \<and>
            env (after (youtubeCallback w q)) = env w \<and>
            storage (after (youtubeCallback w q)) = storage w"
    if both: "rendered (code q) \<noteq> None \<and>
      truthy (env w ''YOUTUBE_CLIENT_ID'') \<and> truthy (env w ''YOUTUBE_CLIENT_SECRET'')"
  proof -
    from both obtain y where y: "youtube (config w) = Some y"
      using reachable_youtube[OF assms(1)] by auto
    note set = setAccessToken_youtube_present[OF y, of "''simulated_access_token''"]
    have run: "youtubeCallback w q =
        \<lparr> reply = \<lparr> statusCode = 200,
                    body = HtmlBody ''YouTube Connected''
                             ''You may close this window and return to the application.'' \<rparr>,
          after = w\<lparr> config := snd (setAccessToken (config w) ''youtube'' ''simulated_access_token'') \<rparr>,
          calls = [SetAccessToken ''youtube'' ''simulated_access_token''] \<rparr>"
      using assms(2,3) both by (simp add: youtubeCallback_def Let_def)
    show ?thesis by (simp add: run set)
  qed
  have failed: "statusCode (reply (youtubeCallback w q)) = 500 \<and>
            calls (youtubeCallback w q) = [] \<and>
            after (youtubeCallback w q) = w"
    if "rendered (code q) = None \<or>
        \<not> (truthy (env w ''YOUTUBE_CLIENT_ID'') \<and> truthy (env w ''YOUTUBE_CLIENT_SECRET''))"
    using that assms(2,3) by (auto simp: youtubeCallback_def)
  have str: "rendered (code q) \<noteq> None" if "code q = Some (QString s)"
    using that by (simp add: rendered_def)
  show ?thesis using ok failed str by blast
qed

theorem youtubeCallback_with_code_witness:
  "reachable sampleEnvYoutube (config (startedServer sampleEnvYoutube sampleStorage)) \<and>
   qTruthy (code \<lparr> code = Some (QString ''4/abc''), error = None \<rparr>) \<and>
   \<not> qTruthy (callbackQuery.error \<lparr> code = Some (QString ''4/abc''), error = None \<rparr>) \<and>
   rendered (code \<lparr> code = Some (QString ''4/abc''), error = None \<rparr>) = Some ''4/abc'' \<and>
   truthy (sampleEnvYoutube ''YOUTUBE_CLIENT_ID'') \<and>
   truthy (sampleEnvYoutube ''YOUTUBE_CLIENT_SECRET'') \<and>
   statusCode (reply (youtubeCallback (startedServer sampleEnvYoutube sampleStorage)
      \<lparr> code = Some (QString ''4/abc''), error = None \<rparr>)) = 200 \<and>
   map_option youtubeConfig.accessToken
     (youtube (config (after (youtubeCallback (startedServer sampleEnvYoutube sampleStorage)
        \<lparr> code = Some (QString ''4/abc''), error = None \<rparr>)))) =
     Some (Some ''simulated_access_token'') \<and>
   reachable sampleEnvInstagram (config (startedServer sampleEnvInstagram sampleStorage)) \<and>
   \<not> truthy (sampleEnvInstagram ''YOUTUBE_CLIENT_ID'') \<and>
   statusCode (reply (youtubeCallback (startedServer sampleEnvInstagram sampleStorage)
      \<lparr> code = Some (QString ''4/abc''), error = None \<rparr>)) = 500 \<and>
   after (youtubeCallback (startedServer sampleEnvInstagram sampleStorage)
      \<lparr> code = Some (QString ''4/abc''), error = None \<rparr>) =
     startedServer sampleEnvInstagram sampleStorage"
proof -
  let ?q = "\<lparr> code = Some (QString ''4/abc''), error = None \<rparr>"
  have r1: "reachable (env (startedServer sampleEnvYoutube sampleStorage))
              (config (startedServer sampleEnvYoutube sampleStorage))"
    by (simp add: startedServer_def reachable.constructed)
  have r2: "reachable (env (startedServer sampleEnvInstagram sampleStorage))
              (config (startedServer sampleEnvInstagram sampleStorage))"
    by (simp add: startedServer_def reachable.constructed)
  have q1: "qTruthy (code ?q)" and q2: "\<not> qTruthy (callbackQuery.error ?q)"
    and q3: "rendered (code ?q) = Some ''4/abc''"
    by (simp_all add: qTruthy_def rendered_def)
  have e1: "truthy (sampleEnvYoutube ''YOUTUBE_CLIENT_ID'')"
    "truthy (sampleEnvYoutube ''YOUTUBE_CLIENT_SECRET'')"
    "\<not> truthy (sampleEnvInstagram ''YOUTUBE_CLIENT_ID'')"
    by (simp_all add: sampleEnvYoutube_def sampleEnvInstagram_def truthy_def)
  have env1: "env (startedServer sampleEnvYoutube sampleStorage) = sampleEnvYoutube"
    and env2: "env (startedServer sampleEnvInstagram sampleStorage) = sampleEnvInstagram"
    by (simp_all add: startedServer_def)
  show ?thesis
    using youtubeCallback_with_code[OF r1 q1 q2, of "''4/abc''"]
      youtubeCallback_with_code[OF r2 q1 q2, of "''4/abc''"]
      r1 r2 q1 q2 q3 e1
    by (simp add: env1 env2)
qed

section \<open>The authorization URL endpoint\<close>

lemma getAuthorizationUrl_nonempty: "getAuthorizationUrl E c p b = Some u \<Longrightarrow> u \<noteq> []"
  by (auto simp: getAuthorizationUrl_def Let_def split: if_splits option.splits)

lemma authUrlHandler_reply:
  "reply (authUrlHandler w req) =
     (case getAuthorizationUrl (env w) (loadConfig (env w) (config w))
             (sanitizeString (paramsPlatform req))
             (Some (orDefault (hostHeader req) ''localhost:5000'')) of
        None \<Rightarrow> \<lparr> statusCode = 400,
                   body = FailureBody (''Platform '' @ sanitizeString (paramsPlatform req) @
                                       '' is not configured or not supported'') \<rparr>
      | Some u \<Rightarrow> \<lparr> statusCode = 200, body = AuthUrlBody u \<rparr>)"
proof (cases "getAuthorizationUrl (env w) (loadConfig (env w) (config w))
             (sanitizeString (paramsPlatform req))
             (Some (orDefault (hostHeader req) ''localhost:5000''))")
  case None
  then show ?thesis by (simp add: authUrlHandler_def Let_def truthy_def)
next
  case (Some u)
  then have "u \<noteq> []" by (rule getAuthorizationUrl_nonempty)
  with Some show ?thesis by (simp add: authUrlHandler_def Let_def truthy_def orDefault_def)
qed

lemma lowerCaseIs_names:
  "lowerCaseIs p ''youtube'' \<Longrightarrow> \<not> lowerCaseIs p ''tiktok''"
  "lowerCaseIs p ''youtube'' \<Longrightarrow> \<not> lowerCaseIs p ''instagram''"
  "lowerCaseIs p ''tiktok'' \<Longrightarrow> \<not> lowerCaseIs p ''instagram''"
  by (cases p; simp)+

lemma builder_youtube:
  assumes "loadedFrom E c" and "lowerCaseIs p ''youtube''"
  shows "getAuthorizationUrl E c p b =
     (if truthy (E ''YOUTUBE_CLIENT_ID'') \<and> truthy (E ''YOUTUBE_CLIENT_SECRET'')
      then Some (''https://accounts.google.com/o/oauth2/auth?client_id='' @
                 orDefault (E ''YOUTUBE_CLIENT_ID'') [] @
                 ''&redirect_uri='' @ encodeURIComponent (redirectUri b ''youtube'') @
                 ''&scope='' @ youtubeScopes @
                 ''&response_type=code&access_type=offline&prompt=consent'' @
                 ''&include_granted_scopes=true'')
      else None)"
  using assms
  by (auto simp: getAuthorizationUrl_def loadedFrom_def truthy_def orDefault_def
      split: option.splits)

lemma builder_tiktok:
  assumes "loadedFrom E c" and "lowerCaseIs p ''tiktok''"
  shows "getAuthorizationUrl E c p b =
     (if truthy (E ''TIKTOK_CLIENT_KEY'') \<and> truthy (E ''TIKTOK_CLIENT_SECRET'')
      then Some (''https://www.tiktok.com/auth/authorize/?client_key='' @
                 orDefault (E ''TIKTOK_CLIENT_KEY'') [] @
                 ''&scope=user.info.basic,video.upload&response_type=code&redirect_uri='' @
                 encodeURIComponent (redirectUri b ''tiktok''))
      else None)"
proof -
  have "\<not> lowerCaseIs p ''youtube''" using assms(2) lowerCaseIs_names(1) by blast
  then show ?thesis
    using assms
    by (auto simp: getAuthorizationUrl_def loadedFrom_def truthy_def orDefault_def
        split: option.splits)
qed

lemma builder_instagram:
  assumes "lowerCaseIs p ''instagram''"
  shows "getAuthorizationUrl E c p b =
     (if truthy (E ''FACEBOOK_APP_ID'')
      then Some (''https://www.facebook.com/v16.0/dialog/oauth?client_id='' @
                 orDefault (E ''FACEBOOK_APP_ID'') [] @
                 ''&redirect_uri='' @ encodeURIComponent (redirectUri b ''instagram'') @
                 ''&scope='' @
                 encodeURIComponent ''instagram_content_publish,pages_read_engagement'')
      else None)"
proof -
  have "\<not> lowerCaseIs p ''youtube''" "\<not> lowerCaseIs p ''tiktok''"
    using assms lowerCaseIs_names by blast+
  then show ?thesis
    using assms by (simp add: getAuthorizationUrl_def)
qed

lemma builder_other:
  "\<not> lowerCaseIs p ''youtube'' \<Longrightarrow> \<not> lowerCaseIs p ''tiktok'' \<Longrightarrow>
   \<not> lowerCaseIs p ''instagram'' \<Longrightarrow> getAuthorizationUrl E c p b = None"
  by (simp add: getAuthorizationUrl_def)

text \<open>
  C8, as the code has it. The endpoint reloads the configuration and asks the
  authorization-URL builder with the sanitized platform name and the request's host (or
  \<open>localhost:5000\<close>); it answers 200 with \<open>{ authUrl }\<close> holding the builder's URL when
  there is one and the 400 failure "Platform ... is not configured or not supported" when
  the builder returns \<open>null\<close>. For a name that lower-cases to youtube there is a URL
  exactly when \<open>YOUTUBE_CLIENT_ID\<close> and \<open>YOUTUBE_CLIENT_SECRET\<close> are both present, for
  tiktok exactly when \<open>TIKTOK_CLIENT_KEY\<close> and \<open>TIKTOK_CLIENT_SECRET\<close> are, for
  instagram exactly when \<open>FACEBOOK_APP_ID\<close> is (the variable that makes instagram
  configured, \<open>INSTAGRAM_ACCESS_TOKEN\<close>, plays no part), and for any other name there is
  none. The URLs are the ones written out below. The service's configuration is any one
  the running service can hold in its environment.
\<close>

theorem authUrlHandler_answers:
  fixes w :: server and req :: authUrlRequest
  assumes "reachable (env w) (config w)"
  defines "name \<equiv> sanitizeString (paramsPlatform req)"
      and "origin \<equiv> Some (orDefault (hostHeader req) ''localhost:5000'')"
      and "refusal \<equiv> \<lparr> statusCode = 400,
                        body = FailureBody (''Platform '' @ sanitizeString (paramsPlatform req) @
                                            '' is not configured or not supported'') \<rparr>"
  shows "reply (authUrlHandler w req) =
           (case getAuthorizationUrl (env w) (loadConfig (env w) (config w)) name origin of
              None \<Rightarrow> refusal
            | Some u \<Rightarrow> \<lparr> statusCode = 200, body = AuthUrlBody u \<rparr>) \<and>
         (lowerCaseIs name ''youtube'' \<longrightarrow>
            reply (authUrlHandler w req) =
              (if truthy (env w ''YOUTUBE_CLIENT_ID'') \<and> truthy (env w ''YOUTUBE_CLIENT_SECRET'')
               then \<lparr> statusCode = 200,
                      body = AuthUrlBody
                        (''https://accounts.google.com/o/oauth2/auth?client_id='' @
                         orDefault (env w ''YOUTUBE_CLIENT_ID'') [] @
                         ''&redirect_uri='' @ encodeURIComponent (redirectUri origin ''youtube'') @
                         ''&scope='' @ youtubeScopes @
                         ''&response_type=code&access_type=offline&prompt=consent'' @
                         ''&include_granted_scopes=true'') \<rparr>
               else refusal)) \<and>
         (lowerCaseIs name ''tiktok'' \<longrightarrow>
            reply (authUrlHandler w req) =
              (if truthy (env w ''TIKTOK_CLIENT_KEY'') \<and> truthy (env w ''TIKTOK_CLIENT_SECRET'')
               then \<lparr> statusCode = 200,
                      body = AuthUrlBody
                        (''https://www.tiktok.com/auth/authorize/?client_key='' @
                         orDefault (env w ''TIKTOK_CLIENT_KEY'') [] @
                         ''&scope=user.info.basic,video.upload&response_type=code&redirect_uri='' @
                         encodeURIComponent (redirectUri origin ''tiktok'')) \<rparr>
               else refusal)) \<and>
         (lowerCaseIs name ''instagram'' \<longrightarrow>
            reply (authUrlHandler w req) =
              (if truthy (env w ''FACEBOOK_APP_ID'')
               then \<lparr> statusCode = 200,
                      body = AuthUrlBody
                        (''https://www.facebook.com/v16.0/dialog/oauth?client_id='' @
                         orDefault (env w ''FACEBOOK_APP_ID'') [] @
                         ''&redirect_uri='' @ encodeURIComponent (redirectUri origin ''instagram'') @
                         ''&scope='' @
                         encodeURIComponent ''instagram_content_publish,pages_read_engagement'') \<rparr>
               else refusal)) \<and>
         (\<not> lowerCaseIs name ''youtube'' \<and> \<not> lowerCaseIs name ''tiktok'' \<and>
          \<not> lowerCaseIs name ''instagram'' \<longrightarrow>
            reply (authUrlHandler w req) = refusal)"
proof -
  have loaded: "loadedFrom (env w) (loadConfig (env w) (config w))"
    using reachable_loadedFrom[OF assms(1)] by (rule loadedFrom_loadConfig)
  note r = authUrlHandler_reply[of w req, folded name_def origin_def refusal_def]
  have y: "lowerCaseIs name ''youtube'' \<longrightarrow> reply (authUrlHandler w req) =
              (if truthy (env w ''YOUTUBE_CLIENT_ID'') \<and> truthy (env w ''YOUTUBE_CLIENT_SECRET'')
               then \<lparr> statusCode = 200,
                      body = AuthUrlBody
                        (''https://accounts.google.com/o/oauth2/auth?client_id='' @
                         orDefault (env w ''YOUTUBE_CLIENT_ID'') [] @
                         ''&redirect_uri='' @ encodeURIComponent (redirectUri origin ''youtube'') @
                         ''&scope='' @ youtubeScopes @
                         ''&response_type=code&access_type=offline&prompt=consent'' @
                         ''&include_granted_scopes=true'') \<rparr>
               else refusal)"
    using r builder_youtube[OF loaded, of name origin] by simp
  have t: "lowerCaseIs name ''tiktok'' \<longrightarrow> reply (authUrlHandler w req) =
              (if truthy (env w ''TIKTOK_CLIENT_KEY'') \<and> truthy (env w ''TIKTOK_CLIENT_SECRET'')
               then \<lparr> statusCode = 200,
                      body = AuthUrlBody
                        (''https://www.tiktok.com/auth/authorize/?client_key='' @
                         orDefault (env w ''TIKTOK_CLIENT_KEY'') [] @
                         ''&scope=user.info.basic,video.upload&response_type=code&redirect_uri='' @
                         encodeURIComponent (redirectUri origin ''tiktok'')) \<rparr>
               else refusal)"
    using r builder_tiktok[OF loaded, of name origin] by simp
  have i: "lowerCaseIs name ''instagram'' \<longrightarrow> reply (authUrlHandler w req) =
              (if truthy (env w ''FACEBOOK_APP_ID'')
               then \<lparr> statusCode = 200,
                      body = AuthUrlBody
                        (''https://www.facebook.com/v16.0/dialog/oauth?client_id='' @
                         orDefault (env w ''FACEBOOK_APP_ID'') [] @
                         ''&redirect_uri='' @ encodeURIComponent (redirectUri origin ''instagram'') @
                         ''&scope='' @
                         encodeURIComponent ''instagram_content_publish,pages_read_engagement'') \<rparr>
               else refusal)"
    using r builder_instagram[of name "env w" "loadConfig (env w) (config w)" origin] by simp
  have o: "\<not> lowerCaseIs name ''youtube'' \<and> \<not> lowerCaseIs name ''tiktok'' \<and>
          \<not> lowerCaseIs name ''instagram'' \<longrightarrow> reply (authUrlHandler w req) = refusal"
    using r builder_other[of name "env w" "loadConfig (env w) (config w)" origin] by simp
  show ?thesis using r y t i o by blast
qed

theorem authUrlHandler_answers_witness:
  "reachable (env (startedServer sampleEnvYoutube sampleStorage))
     (config (startedServer sampleEnvYoutube sampleStorage)) \<and>
   lowerCaseIs (sanitizeString ''TikTok'') ''tiktok'' \<and>
   \<not> truthy (sampleEnvYoutube ''TIKTOK_CLIENT_KEY'') \<and>
   reply (authUrlHandler (startedServer sampleEnvYoutube sampleStorage)
            \<lparr> paramsPlatform = ''TikTok'', hostHeader = Some ''app.example.com'' \<rparr>) =
     \<lparr> statusCode = 400,
       body = FailureBody ''Platform TikTok is not configured or not supported'' \<rparr> \<and>
   lowerCaseIs (sanitizeString ''youtube'') ''youtube'' \<and>
   truthy (sampleEnvYoutube ''YOUTUBE_CLIENT_ID'') \<and>
   truthy (sampleEnvYoutube ''YOUTUBE_CLIENT_SECRET'') \<and>
   reply (authUrlHandler (startedServer sampleEnvYoutube sampleStorage)
            \<lparr> paramsPlatform = ''youtube'', hostHeader = Some ''app.example.com'' \<rparr>) =
     \<lparr> statusCode = 200,
       body = AuthUrlBody (''https://accounts.google.com/o/oauth2/auth?client_id=my-client'' @
         ''&redirect_uri=https%3A%2F%2Fapp.example.com%2Fapi%2Fauth%2Fyoutube%2Fcallback'' @
         ''&scope=https%3A%2F%2Fwww.googleapis.com%2Fauth%2Fyoutube%20'' @
         ''https%3A%2F%2Fwww.googleapis.com%2Fauth%2Fyoutube.upload%20'' @
         ''https%3A%2F%2Fwww.googleapis.com%2Fauth%2Fyoutube.readonly'' @
         ''&response_type=code&access_type=offline&prompt=consent&include_granted_scopes=true'') \<rparr>"
proof -
  let ?w = "startedServer sampleEnvYoutube sampleStorage"
  let ?tik = "\<lparr> paramsPlatform = ''TikTok'', hostHeader = Some ''app.example.com'' \<rparr>"
  let ?you = "\<lparr> paramsPlatform = ''youtube'', hostHeader = Some ''app.example.com'' \<rparr>"
  have r: "reachable (env ?w) (config ?w)"
    by (simp add: startedServer_def reachable.constructed)
  have n: "lowerCaseIs (sanitizeString (paramsPlatform ?tik)) ''tiktok''"
    "lowerCaseIs (sanitizeString (paramsPlatform ?you)) ''youtube''"
    by code_simp+
  have n': "lowerCaseIs (sanitizeString ''TikTok'') ''tiktok''"
    "lowerCaseIs (sanitizeString ''youtube'') ''youtube''"
    using n by simp_all
  have s: "sanitizeString (paramsPlatform ?tik) = ''TikTok''"
    by code_simp
  have e: "\<not> truthy (sampleEnvYoutube ''TIKTOK_CLIENT_KEY'')"
    "truthy (sampleEnvYoutube ''YOUTUBE_CLIENT_ID'')"
    "truthy (sampleEnvYoutube ''YOUTUBE_CLIENT_SECRET'')"
    by (simp_all add: sampleEnvYoutube_def truthy_def)
  have w: "env ?w = sampleEnvYoutube"
    by (simp add: startedServer_def)
  have u: "''https://accounts.google.com/o/oauth2/auth?client_id='' @
      orDefault (sampleEnvYoutube ''YOUTUBE_CLIENT_ID'') [] @ ''&redirect_uri='' @
      encodeURIComponent (redirectUri (Some (orDefault (hostHeader ?you) ''localhost:5000''))
        ''youtube'') @ ''&scope='' @ youtubeScopes @
      ''&response_type=code&access_type=offline&prompt=consent'' @
      ''&include_granted_scopes=true'' =
      ''https://accounts.google.com/o/oauth2/auth?client_id=my-client'' @
      ''&redirect_uri=https%3A%2F%2Fapp.example.com%2Fapi%2Fauth%2Fyoutube%2Fcallback'' @
      ''&scope=https%3A%2F%2Fwww.googleapis.com%2Fauth%2Fyoutube%20'' @
      ''https%3A%2F%2Fwww.googleapis.com%2Fauth%2Fyoutube.upload%20'' @
      ''https%3A%2F%2Fwww.googleapis.com%2Fauth%2Fyoutube.readonly'' @
      ''&response_type=code&access_type=offline&prompt=consent&include_granted_scopes=true''"
    by code_simp
  have "reply (authUrlHandler ?w ?tik) =
      (if truthy (env ?w ''TIKTOK_CLIENT_KEY'') \<and> truthy (env ?w ''TIKTOK_CLIENT_SECRET'')
       then \<lparr> statusCode = 200,
              body = AuthUrlBody
                (''https://www.tiktok.com/auth/authorize/?client_key='' @
                 orDefault (env ?w ''TIKTOK_CLIENT_KEY'') [] @
                 ''&scope=user.info.basic,video.upload&response_type=code&redirect_uri='' @
                 encodeURIComponent
                   (redirectUri (Some (orDefault (hostHeader ?tik) ''localhost:5000'')) ''tiktok'')) \<rparr>
       else \<lparr> statusCode = 400,
              body = FailureBody (''Platform '' @ sanitizeString (paramsPlatform ?tik) @
                                  '' is not configured or not supported'') \<rparr>)"
    using authUrlHandler_answers[OF r, of ?tik] n(1) by blast
  then have a: "reply (authUrlHandler ?w ?tik) =
      \<lparr> statusCode = 400,
        body = FailureBody ''Platform TikTok is not configured or not supported'' \<rparr>"
    unfolding w s using e(1) by simp
  have "reply (authUrlHandler ?w ?you) =
      (if truthy (env ?w ''YOUTUBE_CLIENT_ID'') \<and> truthy (env ?w ''YOUTUBE_CLIENT_SECRET'')
       then \<lparr> statusCode = 200,
              body = AuthUrlBody
                (''https://accounts.google.com/o/oauth2/auth?client_id='' @
                 orDefault (env ?w ''YOUTUBE_CLIENT_ID'') [] @ ''&redirect_uri='' @
                 encodeURIComponent
                   (redirectUri (Some (orDefault (hostHeader ?you) ''localhost:5000'')) ''youtube'') @
                 ''&scope='' @ youtubeScopes @
                 ''&response_type=code&access_type=offline&prompt=consent'' @
                 ''&include_granted_scopes=true'') \<rparr>
       else \<lparr> statusCode = 400,
              body = FailureBody (''Platform '' @ sanitizeString (paramsPlatform ?you) @
                                  '' is not configured or not supported'') \<rparr>)"
    using authUrlHandler_answers[OF r, of ?you] n(2) by blast
  then have b: "reply (authUrlHandler ?w ?you) =
      \<lparr> statusCode = 200,
       body = AuthUrlBody (''https://accounts.google.com/o/oauth2/auth?client_id=my-client'' @
         ''&redirect_uri=https%3A%2F%2Fapp.example.com%2Fapi%2Fauth%2Fyoutube%2Fcallback'' @
         ''&scope=https%3A%2F%2Fwww.googleapis.com%2Fauth%2Fyoutube%20'' @
         ''https%3A%2F%2Fwww.googleapis.com%2Fauth%2Fyoutube.upload%20'' @
         ''https%3A%2F%2Fwww.googleapis.com%2Fauth%2Fyoutube.readonly'' @
         ''&response_type=code&access_type=offline&prompt=consent&include_granted_scopes=true'') \<rparr>"
    unfolding w u using e(2,3) by (simp only: if_True simp_thms)
  show ?thesis
    using r n' e a b by (intro conjI) assumption+
qed

text \<open>
  C8 as stated fails for instagram, in both directions. With only
  \<open>INSTAGRAM_ACCESS_TOKEN\<close> set, instagram is configured and the endpoint answers the 400
  failure "not configured or not supported"; with only \<open>FACEBOOK_APP_ID\<close> set, instagram
  is not configured and the endpoint answers 200 with a URL.
\<close>

theorem authUrl_instagram_counterexample:
  "isPlatformConfigured (config (startedServer sampleEnvInstagram sampleStorage)) ''instagram'' \<and>
   reply (authUrlHandler (startedServer sampleEnvInstagram sampleStorage)
            \<lparr> paramsPlatform = ''instagram'', hostHeader = Some ''app.example.com'' \<rparr>) =
     \<lparr> statusCode = 400,
       body = FailureBody ''Platform instagram is not configured or not supported'' \<rparr> \<and>
   \<not> isPlatformConfigured (config (startedServer sampleEnvFacebook sampleStorage)) ''instagram'' \<and>
   reply (authUrlHandler (startedServer sampleEnvFacebook sampleStorage)
            \<lparr> paramsPlatform = ''instagram'', hostHeader = Some ''app.example.com'' \<rparr>) =
     \<lparr> statusCode = 200,
       body = AuthUrlBody (''https://www.facebook.com/v16.0/dialog/oauth?client_id=fb-app'' @
         ''&redirect_uri=https%3A%2F%2Fapp.example.com%2Fapi%2Fauth%2Finstagram%2Fcallback'' @
         ''&scope=instagram_content_publish%2Cpages_read_engagement'') \<rparr>"
proof -
  let ?req = "\<lparr> paramsPlatform = ''instagram'', hostHeader = Some ''app.example.com'' \<rparr>"
  have c: "isPlatformConfigured (config (startedServer sampleEnvInstagram sampleStorage)) ''instagram''"
    "\<not> isPlatformConfigured (config (startedServer sampleEnvFacebook sampleStorage)) ''instagram''"
    by code_simp+
  have n: "getAuthorizationUrl (env (startedServer sampleEnvInstagram sampleStorage))
      (loadConfig (env (startedServer sampleEnvInstagram sampleStorage))
         (config (startedServer sampleEnvInstagram sampleStorage)))
      (sanitizeString (paramsPlatform ?req))
      (Some (orDefault (hostHeader ?req) ''localhost:5000'')) = None"
    by code_simp
  have u: "getAuthorizationUrl (env (startedServer sampleEnvFacebook sampleStorage))
      (loadConfig (env (startedServer sampleEnvFacebook sampleStorage))
         (config (startedServer sampleEnvFacebook sampleStorage)))
      (sanitizeString (paramsPlatform ?req))
      (Some (orDefault (hostHeader ?req) ''localhost:5000'')) =
      Some (''https://www.facebook.com/v16.0/dialog/oauth?client_id=fb-app'' @
         ''&redirect_uri=https%3A%2F%2Fapp.example.com%2Fapi%2Fauth%2Finstagram%2Fcallback'' @
         ''&scope=instagram_content_publish%2Cpages_read_engagement'')"
    by code_simp
  have s: "sanitizeString ''instagram'' = ''instagram''"
    by code_simp
  have a: "reply (authUrlHandler (startedServer sampleEnvInstagram sampleStorage) ?req) =
     \<lparr> statusCode = 400,
       body = FailureBody ''Platform instagram is not configured or not supported'' \<rparr>"
    by (simp only: authUrlHandler_reply n option.case) (simp add: s)
  have b: "reply (authUrlHandler (startedServer sampleEnvFacebook sampleStorage) ?req) =
     \<lparr> statusCode = 200,
       body = AuthUrlBody (''https://www.facebook.com/v16.0/dialog/oauth?client_id=fb-app'' @
         ''&redirect_uri=https%3A%2F%2Fapp.example.com%2Fapi%2Fauth%2Finstagram%2Fcallback'' @
         ''&scope=instagram_content_publish%2Cpages_read_engagement'') \<rparr>"
    by (simp only: authUrlHandler_reply u option.case)
  show ?thesis using c a b by (intro conjI) assumption+
qed

section \<open>Publishing a video\<close>

lemma publish_not_found:
  "parseInt h (sanitizeString (paramsId req)) = n \<Longrightarrow> n \<noteq> NaN \<Longrightarrow>
   validateRequest publishSchema (reqBody req) = Inr ps \<Longrightarrow>
   fst (getVideo (storage w) n) = None \<Longrightarrow>
   publishHandler h w req =
     \<lparr> reply = \<lparr> statusCode = 404, body = MessageBody ''Video not found'' \<rparr>,
       after = w, calls = [GetVideo n] \<rparr>"
  by (simp add: publishHandler_def Let_def)

lemma publish_no_media:
  "parseInt h (sanitizeString (paramsId req)) = n \<Longrightarrow> n \<noteq> NaN \<Longrightarrow>
   validateRequest publishSchema (reqBody req) = Inr ps \<Longrightarrow>
   fst (getVideo (storage w) n) = Some v \<Longrightarrow> \<not> truthy (videoUrl v) \<Longrightarrow>
   publishHandler h w req =
     \<lparr> reply = \<lparr> statusCode = 400,
                 body = MessageBody
                   ''Video has not been generated yet. Generate the video first.'' \<rparr>,
       after = w, calls = [GetVideo n] \<rparr>"
  by (simp add: publishHandler_def Let_def)

lemma publish_returned:
  assumes "parseInt h (sanitizeString (paramsId req)) = Finite i"
      and "validateRequest publishSchema (reqBody req) = Inr ps"
      and "videos (storage w) i = Some v" and "truthy (videoUrl v)"
      and "publishVideo h (config w) v ps = Inr results"
  shows "reply (publishHandler h w req) = \<lparr> statusCode = 200, body = ResultsBody results \<rparr>"
  using assms by (simp add: publishHandler_def getVideo_def Let_def)

lemma map_of_mapSet_same: "map_of (mapSet k v m) k = Some v"
proof (cases "k \<in> set (map fst m)")
  case True
  then show ?thesis
    by (induction m) (auto simp: mapSet_def)
next
  case False
  then have "map_of m k = None"
    by (simp add: map_of_eq_None_iff)
  with False show ?thesis
    by (simp add: mapSet_def map_add_def)
qed

lemma createActivity_videos: "videos (snd (createActivity now s ia)) = videos s"
  by (simp add: createActivity_def Let_def)

lemma createActivity_counter:
  "activityIdCounter (snd (createActivity now s ia)) = activityIdCounter s + 1"
  by (simp add: createActivity_def Let_def)

lemma createActivity_recorded:
  "map_of (activities (snd (createActivity now s ia))) (activityIdCounter s) =
     Some (fst (createActivity now s ia))"
  by (simp add: createActivity_def Let_def map_of_mapSet_same)

lemma updateVideo_found:
  "videos s i = Some v \<Longrightarrow>
   videos (snd (updateVideo now s (Finite i) f)) = (videos s)(i \<mapsto> f v) \<and>
   activityIdCounter (snd (updateVideo now s (Finite i) f)) = activityIdCounter s + 1"
  by (simp add: updateVideo_def Let_def createActivity_videos createActivity_counter)

text \<open>
  C1, as the code has it. For a publish request that passes the request validation (the id
  parses to a number and the body has a non-empty \<open>platforms\<close> array of strings): if no
  video with the requested id is stored the answer is 404 "Video not found"; if the video is
  stored and has no media URL (\<open>videoUrl\<close> null, or empty) the answer is the 400 "Video has
  not been generated yet"; in both cases the only call made is the lookup, so no platform
  publish is attempted, and the server state is unchanged.
\<close>

theorem publish_missing_video_or_media:
  assumes "parseInt h (sanitizeString (paramsId req)) = n" and "n \<noteq> NaN"
      and "validateRequest publishSchema (reqBody req) = Inr ps"
  shows "(fst (getVideo (storage w) n) = None \<longrightarrow>
            publishHandler h w req =
              \<lparr> reply = \<lparr> statusCode = 404, body = MessageBody ''Video not found'' \<rparr>,
                after = w, calls = [GetVideo n] \<rparr>) \<and>
         (fst (getVideo (storage w) n) = Some v \<and> \<not> truthy (videoUrl v) \<longrightarrow>
            publishHandler h w req =
              \<lparr> reply = \<lparr> statusCode = 400,
                          body = MessageBody
                            ''Video has not been generated yet. Generate the video first.'' \<rparr>,
                after = w, calls = [GetVideo n] \<rparr>) \<and>
         (n = Finite i \<longrightarrow> fst (getVideo (storage w) n) = videos (storage w) i)"
  using publish_not_found[OF assms, of w] publish_no_media[OF assms, of w v]
  by (auto simp: getVideo_def)

theorem publish_missing_video_or_media_witness:
  "parseInt sampleHost (sanitizeString (paramsId (samplePublishRequest [''youtube'']))) = Finite 7 \<and>
   Finite 7 \<noteq> NaN \<and>
   validateRequest publishSchema (reqBody (samplePublishRequest [''youtube''])) = Inr [''youtube''] \<and>
   fst (getVideo (storage (startedServer sampleEnvYoutube sampleStorage)) (Finite 7)) = None \<and>
   publishHandler sampleHost (startedServer sampleEnvYoutube sampleStorage)
       (samplePublishRequest [''youtube'']) =
     \<lparr> reply = \<lparr> statusCode = 404, body = MessageBody ''Video not found'' \<rparr>,
       after = startedServer sampleEnvYoutube sampleStorage, calls = [GetVideo (Finite 7)] \<rparr> \<and>
   fst (getVideo (storage (startedServer sampleEnvYoutube
          (sampleStorage\<lparr> videos := [7 \<mapsto> sampleVideo\<lparr> videoUrl := None \<rparr>] \<rparr>))) (Finite 7)) =
     Some (sampleVideo\<lparr> videoUrl := None \<rparr>) \<and>
   \<not> truthy (videoUrl (sampleVideo\<lparr> videoUrl := None \<rparr>)) \<and>
   reply (publishHandler sampleHost
       (startedServer sampleEnvYoutube
          (sampleStorage\<lparr> videos := [7 \<mapsto> sampleVideo\<lparr> videoUrl := None \<rparr>] \<rparr>))
       (samplePublishRequest [''youtube''])) =
     \<lparr> statusCode = 400,
       body = MessageBody ''Video has not been generated yet. Generate the video first.'' \<rparr> \<and>
   calls (publishHandler sampleHost
       (startedServer sampleEnvYoutube
          (sampleStorage\<lparr> videos := [7 \<mapsto> sampleVideo\<lparr> videoUrl := None \<rparr>] \<rparr>))
       (samplePublishRequest [''youtube''])) = [GetVideo (Finite 7)]"
proof -
  let ?req = "samplePublishRequest [''youtube'']"
  let ?s = "sampleStorage\<lparr> videos := [7 \<mapsto> sampleVideo\<lparr> videoUrl := None \<rparr>] \<rparr>"
  have p: "parseInt sampleHost (sanitizeString (paramsId ?req)) = Finite 7"
    by code_simp
  have d: "Finite 7 \<noteq> NaN" by simp
  have b: "validateRequest publishSchema (reqBody ?req) = Inr [''youtube'']"
    by code_simp
  have v1: "fst (getVideo (storage (startedServer sampleEnvYoutube sampleStorage)) (Finite 7)) = None"
    by (simp add: startedServer_def sampleStorage_def getVideo_def)
  have v2: "fst (getVideo (storage (startedServer sampleEnvYoutube ?s)) (Finite 7)) =
      Some (sampleVideo\<lparr> videoUrl := None \<rparr>)"
    by (simp add: startedServer_def getVideo_def)
  have m: "\<not> truthy (videoUrl (sampleVideo\<lparr> videoUrl := None \<rparr>))"
    by (simp add: truthy_def)
  have one: "publishHandler sampleHost (startedServer sampleEnvYoutube sampleStorage) ?req =
     \<lparr> reply = \<lparr> statusCode = 404, body = MessageBody ''Video not found'' \<rparr>,
       after = startedServer sampleEnvYoutube sampleStorage, calls = [GetVideo (Finite 7)] \<rparr>"
    using publish_missing_video_or_media[OF p d b,
        of "startedServer sampleEnvYoutube sampleStorage" sampleVideo 7] v1
    by blast
  have two: "publishHandler sampleHost (startedServer sampleEnvYoutube ?s) ?req =
     \<lparr> reply = \<lparr> statusCode = 400,
                 body = MessageBody
                   ''Video has not been generated yet. Generate the video first.'' \<rparr>,
       after = startedServer sampleEnvYoutube ?s, calls = [GetVideo (Finite 7)] \<rparr>"
    using publish_missing_video_or_media[OF p d b,
        of "startedServer sampleEnvYoutube ?s" "sampleVideo\<lparr> videoUrl := None \<rparr>" 7] v2 m
    by blast
  show ?thesis
    using p b v1 v2 m one two by simp
qed

text \<open>
  C1 as stated fails: no video has the requested id \<open>7\<close>, the body's list of platforms is
  empty, and the answer is the 400 of the request validation, not 404.
\<close>

theorem publish_missing_video_invalid_body_counterexample:
  "parseInt sampleHost (sanitizeString (paramsId (samplePublishRequest []))) = Finite 7 \<and>
   videos (storage (startedServer sampleEnvYoutube sampleStorage)) 7 = None \<and>
   reply (publishHandler sampleHost (startedServer sampleEnvYoutube sampleStorage)
            (samplePublishRequest [])) =
     \<lparr> statusCode = 400,
       body = ValidationBody
         [TooSmall [Key ''platforms''] ''At least one platform must be selected''] \<rparr> \<and>
   statusCode (reply (publishHandler sampleHost (startedServer sampleEnvYoutube sampleStorage)
            (samplePublishRequest []))) \<noteq> 404"
proof -
  have p: "parseInt sampleHost (sanitizeString (paramsId (samplePublishRequest []))) = Finite 7"
    by code_simp
  have b: "validateRequest publishSchema (reqBody (samplePublishRequest [])) =
      Inl [TooSmall [Key ''platforms''] ''At least one platform must be selected'']"
    by code_simp
  show ?thesis
    using p b by (simp add: publishHandler_def startedServer_def sampleStorage_def)
qed

text \<open>
  C2. Take a publish request on an existing video with a media URL: its id parses to the
  id of a stored video whose \<open>videoUrl\<close> is set, and its body validates to a list of
  platforms, with which the handler calls the publishing service. If the service returns a
  list of results, the response is 200 with exactly that list as \<open>results\<close>, whatever the
  success flags of the entries are.
\<close>

theorem publish_responds_200_with_results:
  assumes "parseInt h (sanitizeString (paramsId req)) = Finite i"
      and "validateRequest publishSchema (reqBody req) = Inr ps"
      and "videos (storage w) i = Some v" and "truthy (videoUrl v)"
      and "publishVideo h (config w) v ps = Inr results"
  shows "reply (publishHandler h w req) = \<lparr> statusCode = 200, body = ResultsBody results \<rparr>"
  using assms by (rule publish_returned)

theorem publish_responds_200_with_results_witness:
  "parseInt sampleHost (sanitizeString (paramsId (samplePublishRequest [''youtube'', ''vimeo'']))) =
     Finite 7 \<and>
   validateRequest publishSchema (reqBody (samplePublishRequest [''youtube'', ''vimeo''])) =
     Inr [''youtube'', ''vimeo''] \<and>
   videos (storage (startedServer sampleEnvYoutube sampleStorageWithVideo)) 7 = Some sampleVideo \<and>
   truthy (videoUrl sampleVideo) \<and>
   publishVideo sampleHost (config (startedServer sampleEnvYoutube sampleStorageWithVideo))
     sampleVideo [''youtube'', ''vimeo''] = Inr sampleFailures \<and>
   \<not> list_ex success sampleFailures \<and>
   reply (publishHandler sampleHost (startedServer sampleEnvYoutube sampleStorageWithVideo)
            (samplePublishRequest [''youtube'', ''vimeo''])) =
     \<lparr> statusCode = 200, body = ResultsBody sampleFailures \<rparr>"
proof -
  let ?w = "startedServer sampleEnvYoutube sampleStorageWithVideo"
  let ?req = "samplePublishRequest [''youtube'', ''vimeo'']"
  have p: "parseInt sampleHost (sanitizeString (paramsId ?req)) = Finite 7"
    by code_simp
  have b: "validateRequest publishSchema (reqBody ?req) = Inr [''youtube'', ''vimeo'']"
    by code_simp
  have v: "videos (storage ?w) 7 = Some sampleVideo"
    by (simp add: startedServer_def sampleStorageWithVideo_def)
  have m: "truthy (videoUrl sampleVideo)"
    by (simp add: sampleVideo_def truthy_def)
  have r: "publishVideo sampleHost (config ?w) sampleVideo [''youtube'', ''vimeo''] =
      Inr sampleFailures"
    by code_simp
  have f: "\<not> list_ex success sampleFailures"
    by (simp add: sampleFailures_def)
  show ?thesis
    using publish_responds_200_with_results[OF p b v m r] p b v m r f by simp
qed

lemma publish_fanout_success:
  assumes "parseInt h (sanitizeString (paramsId req)) = Finite i"
      and "validateRequest publishSchema (reqBody req) = Inr ps"
      and "videos (storage w) i = Some v" and "truthy (videoUrl v)"
      and "publishVideo h (config w) v ps = Inr results"
      and "list_ex success results"
  shows "videos (storage (after (publishHandler h w req))) =
           (videos (storage w))(i \<mapsto> v\<lparr> status := ''published'' \<rparr>)"
    and "map_of (activities (storage (after (publishHandler h w req))))
           (activityIdCounter (storage w) + 2) =
         Some \<lparr> activity.ident = activityIdCounter (storage w) + 2,
                activity.videoId = None,
                activity.userId = video.userId v,
                activity.action = ''video_published'',
                activity.details = Some (JObj
                  [(''videoId'', JNum (video.ident v)),
                   (''platforms'', JArr (map JStr (map platform (filter success results)))),
                   (''message'', JStr (''Published '' @ quoted (title v) @ '' to '' @
                      join (map platform (filter success results)) '', ''))]),
                activity.createdAt = dateNow h 2 \<rparr>"
    and "calls (publishHandler h w req) =
           [GetVideo (Finite i), CreateActivity ''video_publish_started'', PublishVideo v ps,
            UpdateVideo (Finite i), CreateActivity ''video_published'']"
proof -
  define s1 where "s1 = snd (createActivity (dateNow h 0) (storage w)
      \<lparr> insertActivity.videoId = None,
        insertActivity.userId = video.userId v,
        insertActivity.action = ''video_publish_started'',
        insertActivity.details = Some (JObj
          [(''videoId'', JNum (video.ident v)),
           (''message'', JStr (''Started publishing '' @ quoted (title v) @
                              '' to '' @ join ps '', ''))]) \<rparr>)"
  define s2 where "s2 = snd (updateVideo (dateNow h 1) s1 (Finite i) (\<lambda>x. x\<lparr> status := ''published'' \<rparr>))"
  define ia where "ia =
      \<lparr> insertActivity.videoId = None,
        insertActivity.userId = video.userId v,
        insertActivity.action = ''video_published'',
        insertActivity.details = Some (JObj
          [(''videoId'', JNum (video.ident v)),
           (''platforms'', JArr (map JStr (map platform (filter success results)))),
           (''message'', JStr (''Published '' @ quoted (title v) @ '' to '' @
              join (map platform (filter success results)) '', ''))]) \<rparr>"
  define s3 where "s3 = snd (createActivity (dateNow h 2) s2 ia)"
  have run: "publishHandler h w req =
      \<lparr> reply = \<lparr> statusCode = 200, body = ResultsBody results \<rparr>,
        after = w\<lparr> storage := s3 \<rparr>,
        calls = [GetVideo (Finite i), CreateActivity ''video_publish_started'', PublishVideo v ps,
                 UpdateVideo (Finite i), CreateActivity ''video_published''] \<rparr>"
    using assms by (simp add: publishHandler_def getVideo_def Let_def s1_def s2_def s3_def ia_def)
  have v1: "videos s1 = videos (storage w)"
    and c1: "activityIdCounter s1 = activityIdCounter (storage w) + 1"
    by (simp_all add: s1_def createActivity_videos createActivity_counter)
  have found: "videos s1 i = Some v" using assms(3) v1 by simp
  have v2: "videos s2 = (videos (storage w))(i \<mapsto> v\<lparr> status := ''published'' \<rparr>)"
    and c2: "activityIdCounter s2 = activityIdCounter (storage w) + 2"
    using updateVideo_found[OF found, of "dateNow h 1" "\<lambda>x. x\<lparr> status := ''published'' \<rparr>"] v1 c1
    by (simp_all add: s2_def)
  have v3: "videos s3 = videos s2"
    by (simp add: s3_def createActivity_videos)
  have a3: "map_of (activities s3) (activityIdCounter s2) =
      Some (fst (createActivity (dateNow h 2) s2 ia))"
    unfolding s3_def by (rule createActivity_recorded)
  have rec: "fst (createActivity (dateNow h 2) s2 ia) =
      \<lparr> activity.ident = activityIdCounter (storage w) + 2,
        activity.videoId = None,
        activity.userId = video.userId v,
        activity.action = ''video_published'',
        activity.details = Some (JObj
          [(''videoId'', JNum (video.ident v)),
           (''platforms'', JArr (map JStr (map platform (filter success results)))),
           (''message'', JStr (''Published '' @ quoted (title v) @ '' to '' @
              join (map platform (filter success results)) '', ''))]),
        activity.createdAt = dateNow h 2 \<rparr>"
    by (simp add: createActivity_def Let_def ia_def c2)
  show "videos (storage (after (publishHandler h w req))) =
          (videos (storage w))(i \<mapsto> v\<lparr> status := ''published'' \<rparr>)"
    by (simp add: run v3 v2)
  show "map_of (activities (storage (after (publishHandler h w req))))
           (activityIdCounter (storage w) + 2) =
         Some \<lparr> activity.ident = activityIdCounter (storage w) + 2,
                activity.videoId = None,
                activity.userId = video.userId v,
                activity.action = ''video_published'',
                activity.details = Some (JObj
                  [(''videoId'', JNum (video.ident v)),
                   (''platforms'', JArr (map JStr (map platform (filter success results)))),
                   (''message'', JStr (''Published '' @ quoted (title v) @ '' to '' @
                      join (map platform (filter success results)) '', ''))]),
                activity.createdAt = dateNow h 2 \<rparr>"
    using a3 rec by (simp add: run c2)
  show "calls (publishHandler h w req) =
           [GetVideo (Finite i), CreateActivity ''video_publish_started'', PublishVideo v ps,
            UpdateVideo (Finite i), CreateActivity ''video_published'']"
    by (simp add: run)
qed

lemma publish_fanout_failure:
  assumes "parseInt h (sanitizeString (paramsId req)) = Finite i"
      and "validateRequest publishSchema (reqBody req) = Inr ps"
      and "videos (storage w) i = Some v" and "truthy (videoUrl v)"
      and "publishVideo h (config w) v ps = Inr results"
      and "\<not> list_ex success results"
  shows "videos (storage (after (publishHandler h w req))) = videos (storage w)"
    and "calls (publishHandler h w req) =
           [GetVideo (Finite i), CreateActivity ''video_publish_started'', PublishVideo v ps]"
  using assms
  by (simp_all add: publishHandler_def getVideo_def Let_def createActivity_videos)

text \<open>
  C3. Take a publish request that reaches the fan-out (its id parses to the id of a stored
  video with a media URL, its body validates to a list of platforms) and let the service
  return its results. If at least one result succeeded, the stored video is the one that
  was read with status "published" (no other video changes), and an activity
  \<open>video_published\<close> is recorded whose \<open>platforms\<close> are exactly the platforms of the
  succeeding results, in order; if no result succeeded, the stored videos are unchanged and
  neither \<open>updateVideo\<close> nor a \<open>video_published\<close> activity is called for. So the update
  to "published" is made iff some result succeeded.
\<close>

theorem publish_status_follows_results:
  assumes "parseInt h (sanitizeString (paramsId req)) = Finite i"
      and "validateRequest publishSchema (reqBody req) = Inr ps"
      and "videos (storage w) i = Some v" and "truthy (videoUrl v)"
      and "publishVideo h (config w) v ps = Inr results"
  shows "(list_ex success results \<longrightarrow>
            videos (storage (after (publishHandler h w req))) =
              (videos (storage w))(i \<mapsto> v\<lparr> status := ''published'' \<rparr>) \<and>
            map_of (activities (storage (after (publishHandler h w req))))
                (activityIdCounter (storage w) + 2) =
              Some \<lparr> activity.ident = activityIdCounter (storage w) + 2,
                     activity.videoId = None,
                     activity.userId = video.userId v,
                     activity.action = ''video_published'',
                     activity.details = Some (JObj
                       [(''videoId'', JNum (video.ident v)),
                        (''platforms'', JArr (map JStr (map platform (filter success results)))),
                        (''message'', JStr (''Published '' @ quoted (title v) @ '' to '' @
                           join (map platform (filter success results)) '', ''))]),
                     activity.createdAt = dateNow h 2 \<rparr>) \<and>
         (\<not> list_ex success results \<longrightarrow>
            videos (storage (after (publishHandler h w req))) = videos (storage w)) \<and>
         (UpdateVideo (Finite i) \<in> set (calls (publishHandler h w req))) =
            list_ex success results \<and>
         (CreateActivity ''video_published'' \<in> set (calls (publishHandler h w req))) =
            list_ex success results"
proof (cases "list_ex success results")
  case True
  show ?thesis
    using publish_fanout_success[OF assms True] True by simp
next
  case False
  show ?thesis
    using publish_fanout_failure[OF assms False] False by simp
qed

theorem publish_status_follows_results_witness:
  "parseInt sampleHost (sanitizeString (paramsId (samplePublishRequest [''youtube'', ''vimeo'']))) =
     Finite 7 \<and>
   validateRequest publishSchema (reqBody (samplePublishRequest [''youtube'', ''vimeo''])) =
     Inr [''youtube'', ''vimeo''] \<and>
   videos (storage (startedServer sampleEnvAuthorized sampleStorageWithVideo)) 7 = Some sampleVideo \<and>
   truthy (videoUrl sampleVideo) \<and>
   publishVideo sampleHost (config (startedServer sampleEnvAuthorized sampleStorageWithVideo))
     sampleVideo [''youtube'', ''vimeo''] = Inr sampleMixed \<and>
   list_ex success sampleMixed \<and>
   map platform (filter success sampleMixed) = [''youtube''] \<and>
   videos (storage (after (publishHandler sampleHost
        (startedServer sampleEnvAuthorized sampleStorageWithVideo)
        (samplePublishRequest [''youtube'', ''vimeo''])))) 7 =
     Some (sampleVideo\<lparr> status := ''published'' \<rparr>) \<and>
   map_option activity.action
     (map_of (activities (storage (after (publishHandler sampleHost
        (startedServer sampleEnvAuthorized sampleStorageWithVideo)
        (samplePublishRequest [''youtube'', ''vimeo'']))))) 7) = Some ''video_published'' \<and>
   publishVideo sampleHost (config (startedServer sampleEnvYoutube sampleStorageWithVideo))
     sampleVideo [''youtube'', ''vimeo''] = Inr sampleFailures \<and>
   \<not> list_ex success sampleFailures \<and>
   videos (storage (after (publishHandler sampleHost
        (startedServer sampleEnvYoutube sampleStorageWithVideo)
        (samplePublishRequest [''youtube'', ''vimeo''])))) 7 = Some sampleVideo \<and>
   UpdateVideo (Finite 7) \<notin> set (calls (publishHandler sampleHost
        (startedServer sampleEnvYoutube sampleStorageWithVideo)
        (samplePublishRequest [''youtube'', ''vimeo''])))"
proof -
  let ?wa = "startedServer sampleEnvAuthorized sampleStorageWithVideo"
  let ?wf = "startedServer sampleEnvYoutube sampleStorageWithVideo"
  let ?req = "samplePublishRequest [''youtube'', ''vimeo'']"
  have p: "parseInt sampleHost (sanitizeString (paramsId ?req)) = Finite 7"
    by code_simp
  have b: "validateRequest publishSchema (reqBody ?req) = Inr [''youtube'', ''vimeo'']"
    by code_simp
  have va: "videos (storage ?wa) 7 = Some sampleVideo"
    and vf: "videos (storage ?wf) 7 = Some sampleVideo"
    by (simp_all add: startedServer_def sampleStorageWithVideo_def)
  have m: "truthy (videoUrl sampleVideo)"
    by (simp add: sampleVideo_def truthy_def)
  have ra: "publishVideo sampleHost (config ?wa) sampleVideo [''youtube'', ''vimeo''] =
      Inr sampleMixed"
    by code_simp
  have rf: "publishVideo sampleHost (config ?wf) sampleVideo [''youtube'', ''vimeo''] =
      Inr sampleFailures"
    by code_simp
  have sa: "list_ex success sampleMixed" "map platform (filter success sampleMixed) = [''youtube'']"
    by (simp_all add: sampleMixed_def)
  have sf: "\<not> list_ex success sampleFailures"
    by (simp add: sampleFailures_def)
  have sw: "videos (storage ?wa) = [7 \<mapsto> sampleVideo]" "videos (storage ?wf) = [7 \<mapsto> sampleVideo]"
    "activityIdCounter (storage ?wa) = 5"
    by (simp_all add: startedServer_def sampleStorageWithVideo_def sampleStorage_def)
  show ?thesis
    using publish_status_follows_results[OF p b va m ra]
      publish_status_follows_results[OF p b vf m rf]
      p b m ra rf sa sf
    by (simp add: sw)
qed

lemma publishSchema_empty_platforms:
  assumes "map_of kvs ''platforms'' = Some (JArr [])"
  shows "validateRequest publishSchema (JObj kvs) =
     Inl [TooSmall [Key ''platforms''] ''At least one platform must be selected'']"
proof -
  let ?sv = "map (\<lambda>(k, v). (k, sanitizeInput v)) kvs"
  have own: "map_of (filter (\<lambda>(k, v). k \<noteq> ''__proto__'') ?sv) ''platforms'' = Some (JArr [])"
    using assms by (simp add: map_of_filter_other map_of_map)
  have "isObject (assignAll ?sv) \<and> getProperty (assignAll ?sv) ''platforms'' = Some (JArr [])"
    using own by (auto simp: assignAll_def Let_def split: option.splits)
  then show ?thesis
    by (simp add: validateRequest_def publishSchema_def)
qed

lemma publishVideo_fanout:
  "truthy (videoUrl v) \<Longrightarrow> videoFilePath h (orDefault (videoUrl v) []) = Some f \<Longrightarrow>
   fsAccess h f \<Longrightarrow> publishVideo h c v ps = Inr (map (publishTo c v f) ps)"
  by (simp add: publishVideo_def)

text \<open>
  C4. A publish request whose \<open>platforms\<close> list is empty is answered 400 with a validation
  message (the message of the length check when the id parses, "Invalid video ID" when it
  does not); the handler makes no call, so no video is looked up and no adapter runs, and
  the server is unchanged. By contrast, for a request that passes the validation on a
  stored video whose media file is found, every requested platform contributes its own
  result, failures included (an unsupported or unauthorized platform among them), and the
  response is 200 with those results, one per requested platform in the request's order.
\<close>

theorem publish_request_level_failures_only:
  "(reqBody req = JObj kvs \<and> map_of kvs ''platforms'' = Some (JArr []) \<longrightarrow>
      statusCode (reply (publishHandler h w req)) = 400 \<and>
      body (reply (publishHandler h w req)) =
        (if parseInt h (sanitizeString (paramsId req)) = NaN
         then MessageBody ''Invalid video ID''
         else ValidationBody
                [TooSmall [Key ''platforms''] ''At least one platform must be selected'']) \<and>
      calls (publishHandler h w req) = [] \<and>
      after (publishHandler h w req) = w) \<and>
   (parseInt h (sanitizeString (paramsId req)) = Finite i \<and>
    validateRequest publishSchema (reqBody req) = Inr ps \<and>
    videos (storage w) i = Some v \<and> truthy (videoUrl v) \<and>
    videoFilePath h (orDefault (videoUrl v) []) = Some f \<and> fsAccess h f \<longrightarrow>
      reply (publishHandler h w req) =
        \<lparr> statusCode = 200, body = ResultsBody (map (publishTo (config w) v f) ps) \<rparr>)"
proof -
  have rejected:
    "statusCode (reply (publishHandler h w req)) = 400 \<and>
      body (reply (publishHandler h w req)) =
        (if parseInt h (sanitizeString (paramsId req)) = NaN
         then MessageBody ''Invalid video ID''
         else ValidationBody
                [TooSmall [Key ''platforms''] ''At least one platform must be selected'']) \<and>
      calls (publishHandler h w req) = [] \<and>
      after (publishHandler h w req) = w"
    if a: "reqBody req = JObj kvs \<and> map_of kvs ''platforms'' = Some (JArr [])"
  proof -
    have bad: "validateRequest publishSchema (reqBody req) =
        Inl [TooSmall [Key ''platforms''] ''At least one platform must be selected'']"
      using a publishSchema_empty_platforms[of kvs] by simp
    show ?thesis
      using bad by (simp add: publishHandler_def Let_def)
  qed
  have fanout:
    "reply (publishHandler h w req) =
        \<lparr> statusCode = 200, body = ResultsBody (map (publishTo (config w) v f) ps) \<rparr>"
    if b: "parseInt h (sanitizeString (paramsId req)) = Finite i \<and>
      validateRequest publishSchema (reqBody req) = Inr ps \<and>
      videos (storage w) i = Some v \<and> truthy (videoUrl v) \<and>
      videoFilePath h (orDefault (videoUrl v) []) = Some f \<and> fsAccess h f"
  proof -
    have "publishVideo h (config w) v ps = Inr (map (publishTo (config w) v f) ps)"
      using publishVideo_fanout[of v h f] b by simp
    then show ?thesis
      using publish_returned[of h req i ps w v] b by simp
  qed
  show ?thesis using rejected fanout by blast
qed

theorem publish_request_level_failures_only_witness:
  "reqBody (samplePublishRequest []) = JObj [(''platforms'', JArr [])] \<and>
   map_of [(''platforms'', JArr [])] ''platforms'' = Some (JArr []) \<and>
   parseInt sampleHost (sanitizeString (paramsId (samplePublishRequest []))) = Finite 7 \<and>
   reply (publishHandler sampleHost (startedServer sampleEnvYoutube sampleStorageWithVideo)
       (samplePublishRequest [])) =
     \<lparr> statusCode = 400,
       body = ValidationBody
         [TooSmall [Key ''platforms''] ''At least one platform must be selected''] \<rparr> \<and>
   calls (publishHandler sampleHost (startedServer sampleEnvYoutube sampleStorageWithVideo)
       (samplePublishRequest [])) = [] \<and>
   after (publishHandler sampleHost (startedServer sampleEnvYoutube sampleStorageWithVideo)
       (samplePublishRequest [])) = startedServer sampleEnvYoutube sampleStorageWithVideo \<and>
   validateRequest publishSchema (reqBody (samplePublishRequest [''youtube'', ''vimeo''])) =
     Inr [''youtube'', ''vimeo''] \<and>
   videos (storage (startedServer sampleEnvYoutube sampleStorageWithVideo)) 7 = Some sampleVideo \<and>
   truthy (videoUrl sampleVideo) \<and>
   videoFilePath sampleHost (orDefault (videoUrl sampleVideo) []) =
     Some ''/srv/app/public/generated/clip.mp4'' \<and>
   fsAccess sampleHost ''/srv/app/public/generated/clip.mp4'' \<and>
   map (publishTo (config (startedServer sampleEnvYoutube sampleStorageWithVideo)) sampleVideo
          ''/srv/app/public/generated/clip.mp4'') [''youtube'', ''vimeo''] = sampleFailures \<and>
   reply (publishHandler sampleHost (startedServer sampleEnvYoutube sampleStorageWithVideo)
            (samplePublishRequest [''youtube'', ''vimeo''])) =
     \<lparr> statusCode = 200, body = ResultsBody sampleFailures \<rparr>"
proof -
  let ?w = "startedServer sampleEnvYoutube sampleStorageWithVideo"
  let ?f = "''/srv/app/public/generated/clip.mp4''"
  let ?req = "samplePublishRequest [''youtube'', ''vimeo'']"
  have e: "reqBody (samplePublishRequest []) = JObj [(''platforms'', JArr [])]"
    "map_of [(''platforms'', JArr [])] ''platforms'' = Some (JArr [])"
    by (simp_all add: samplePublishRequest_def)
  have p: "parseInt sampleHost (sanitizeString (paramsId (samplePublishRequest []))) = Finite 7"
    "parseInt sampleHost (sanitizeString (paramsId ?req)) = Finite 7"
    by code_simp+
  have b: "validateRequest publishSchema (reqBody ?req) = Inr [''youtube'', ''vimeo'']"
    by code_simp
  have v: "videos (storage ?w) 7 = Some sampleVideo"
    by (simp add: startedServer_def sampleStorageWithVideo_def)
  have t: "truthy (videoUrl sampleVideo)"
    by (simp add: sampleVideo_def truthy_def)
  have f: "videoFilePath sampleHost (orDefault (videoUrl sampleVideo) []) = Some ?f"
    "fsAccess sampleHost ?f"
    by (simp_all add: sampleHost_def)
  have m: "map (publishTo (config ?w) sampleVideo ?f) [''youtube'', ''vimeo''] = sampleFailures"
    by code_simp
  note rejected = publish_request_level_failures_only[of "samplePublishRequest []"
        "[(''platforms'', JArr [])]" sampleHost ?w 7 "[]" sampleVideo ?f]
  have r1: "statusCode (reply (publishHandler sampleHost ?w (samplePublishRequest []))) = 400"
    and r2: "body (reply (publishHandler sampleHost ?w (samplePublishRequest []))) =
      ValidationBody [TooSmall [Key ''platforms''] ''At least one platform must be selected'']"
    and r3: "calls (publishHandler sampleHost ?w (samplePublishRequest [])) = []"
    and r4: "after (publishHandler sampleHost ?w (samplePublishRequest [])) = ?w"
    using rejected e p(1) by simp_all
  have whole: "reply (publishHandler sampleHost ?w (samplePublishRequest [])) =
     \<lparr> statusCode = 400,
       body = ValidationBody
         [TooSmall [Key ''platforms''] ''At least one platform must be selected''] \<rparr>"
    using r1 r2 by (cases "reply (publishHandler sampleHost ?w (samplePublishRequest []))") simp
  have fan: "reply (publishHandler sampleHost ?w ?req) =
     \<lparr> statusCode = 200, body = ResultsBody sampleFailures \<rparr>"
    using publish_request_level_failures_only[of ?req
        "[]" sampleHost ?w 7 "[''youtube'', ''vimeo'']" sampleVideo ?f] p(2) b v t f m
    by simp
  show ?thesis using e p(1) whole r3 r4 b v t f m fan by simp
qed


end
